theory Spec2Isabelle
  imports Main "HOL-Library.Sublist"
begin

section \<open>Strings\<close>

text \<open>
  A \<open>QString\<close> is modelled as a \<^typ>\<open>string\<close>; the null and the empty string are both
  \<open>[]\<close>. The operations below are the ones \<open>proxymanager.cpp\<close> calls.
\<close>

definition isEmpty :: "string \<Rightarrow> bool" where
  "isEmpty s = (s = [])"

definition startsWith :: "string \<Rightarrow> string \<Rightarrow> bool" where
  \<comment> \<open>\<open>s.startsWith(p)\<close>\<close>
  "startsWith s p = (take (length p) s = p)"

definition endsWithChar :: "string \<Rightarrow> char \<Rightarrow> bool" where
  \<comment> \<open>\<open>s.endsWith(c)\<close>\<close>
  "endsWithChar s c = (s \<noteq> [] \<and> last s = c)"

definition mid :: "string \<Rightarrow> nat \<Rightarrow> string" where
  \<comment> \<open>\<open>s.mid(n)\<close>: the rest of the string from position \<open>n\<close>, empty past the end\<close>
  "mid s n = drop n s"

subsection \<open>Decimal numbers\<close>

definition digitChar :: "nat \<Rightarrow> char" where
  "digitChar d = ''0123456789'' ! (d mod 10)"

fun natDigits :: "nat \<Rightarrow> string" where
  "natDigits n = (if n < 10 then [digitChar n] else natDigits (n div 10) @ [digitChar (n mod 10)])"

declare natDigits.simps [simp del]

definition number :: "int \<Rightarrow> string" where
  \<comment> \<open>\<open>QString::number(i)\<close>, the text \<open>QString::arg(int)\<close> inserts\<close>
  "number i = (if i < 0 then CHR ''-'' # natDigits (nat (- i)) else natDigits (nat i))"

definition digitValue :: "char \<Rightarrow> nat option" where
  \<comment> \<open>\<open>QChar::digitValue\<close> on the decimal digits\<close>
  "digitValue c =
     (let n = (of_char c :: nat) in if 48 \<le> n \<and> n \<le> 57 then Some (n - 48) else None)"

subsection \<open>Place markers: \<open>QString::arg\<close>\<close>

text \<open>
  \<open>QString::arg(a)\<close> replaces every occurrence of the lowest numbered place marker
  (\<open>%1\<close> .. \<open>%99\<close>, optionally written \<open>%L1\<close>) by \<open>a\<close>; a string without a place
  marker is returned as it is. \<open>escapeAt\<close> reads what follows a \<open>%\<close>: the marker's number and
  the number of characters it takes.
\<close>

definition escapeAt :: "string \<Rightarrow> (nat \<times> nat) option" where
  "escapeAt cs =
     (let k = (if cs \<noteq> [] \<and> hd cs = CHR ''L'' then 1 else 0 :: nat); ds = drop k cs in
      case ds of
        [] \<Rightarrow> None
      | d # es \<Rightarrow>
          (case digitValue d of
             None \<Rightarrow> None
           | Some n \<Rightarrow>
               (case es of
                  [] \<Rightarrow> Some (n, k + 1)
                | e # _ \<Rightarrow>
                    (case digitValue e of
                       None \<Rightarrow> Some (n, k + 1)
                     | Some m \<Rightarrow> Some (10 * n + m, k + 2)))))"

datatype argPiece = Plain char | Marker nat string

function argPieces :: "string \<Rightarrow> argPiece list" where
  "argPieces [] = []"
| "argPieces (c # cs) =
     (if c = CHR ''%'' then
        (case escapeAt cs of
           Some (n, len) \<Rightarrow> Marker n (c # take len cs) # argPieces (drop len cs)
         | None \<Rightarrow> Plain c # argPieces cs)
      else Plain c # argPieces cs)"
  by pat_completeness auto
termination
  by (relation "measure length") auto

fun markerNumbers :: "argPiece list \<Rightarrow> nat list" where
  "markerNumbers [] = []"
| "markerNumbers (Plain c # ps) = markerNumbers ps"
| "markerNumbers (Marker n raw # ps) = n # markerNumbers ps"

fun replaceMarkers :: "nat \<Rightarrow> string \<Rightarrow> argPiece list \<Rightarrow> string" where
  "replaceMarkers m a [] = []"
| "replaceMarkers m a (Plain c # ps) = c # replaceMarkers m a ps"
| "replaceMarkers m a (Marker n raw # ps) =
     (if n = m then a else raw) @ replaceMarkers m a ps"

definition arg :: "string \<Rightarrow> string \<Rightarrow> string" where
  "arg s a =
     (let ps = argPieces s; ns = markerNumbers ps in
      if ns = [] then s else replaceMarkers (fold min ns (hd ns)) a ps)"

section \<open>The property names of \<open>shotcut_mlt_properties.h\<close>\<close>

text \<open>
  The header that defines \<open>kIsProxyProperty\<close>, \<open>kOriginalResourceProperty\<close>,
  \<open>kDisableProxyProperty\<close> and \<open>kShotcutSequenceProperty\<close> is not among the sources, so the
  four names are parameters of the model. \<open>distinctNames\<close> says that they are four different
  names, none of them one of the names \<open>proxymanager.cpp\<close> writes as literals.
\<close>

record propertyNames =
  kIsProxyProperty :: string
  kOriginalResourceProperty :: string
  kDisableProxyProperty :: string
  kShotcutSequenceProperty :: string

definition literalNames :: "string list" where
  "literalNames = [''resource'', ''warp_resource'', ''mlt_service'', ''warp_speed'',
     ''video_index'', ''audio_index'', ''meta.media.colorspace'', ''meta.media.width'',
     ''meta.media.height'']"

definition distinctNames :: "propertyNames \<Rightarrow> bool" where
  "distinctNames K =
     distinct ([kIsProxyProperty K, kOriginalResourceProperty K, kDisableProxyProperty K,
                kShotcutSequenceProperty K] @ literalNames)"

section \<open>The document rewriter: \<open>processProperties\<close>\<close>

type_synonym MltProperty = "string \<times> string"

text \<open>The four locals of the first loop of \<open>processProperties\<close>.\<close>

record scanned =
  isProxy :: bool
  newResource :: string
  service :: string
  speed :: string

definition scanStep :: "propertyNames \<Rightarrow> scanned \<Rightarrow> MltProperty \<Rightarrow> scanned" where
  "scanStep K s p =
     (if fst p = kIsProxyProperty K then s\<lparr>isProxy := True\<rparr>
      else if fst p = kOriginalResourceProperty K then s\<lparr>newResource := snd p\<rparr>
      else if isEmpty (newResource s) \<and> fst p = ''resource'' then s\<lparr>newResource := snd p\<rparr>
      else if fst p = ''mlt_service'' then s\<lparr>service := snd p\<rparr>
      else if fst p = ''warp_speed'' then s\<lparr>speed := snd p\<rparr>
      else s)"

definition scanProperties :: "propertyNames \<Rightarrow> MltProperty list \<Rightarrow> scanned" where
  "scanProperties K properties =
     foldl (scanStep K) \<lparr>isProxy = False, newResource = [], service = [], speed = ''1''\<rparr>
       properties"

text \<open>
  The conversion to a relative path, lines 266 to 271: done each time the second loop meets
  a \<open>resource\<close> property, on the current value of \<open>newResource\<close>.
\<close>

definition toRelative :: "string \<Rightarrow> string \<Rightarrow> string" where
  "toRelative root r =
     (if \<not> isEmpty root \<and> startsWith r root then
        (if endsWithChar root CHR ''/'' then mid r (length root) else mid r (length root + 1))
      else r)"

text \<open>
  The second loop, with \<open>newResource\<close> as its state; the result is \<open>newProperties\<close>.
\<close>

fun filterProperties ::
  "propertyNames \<Rightarrow> string \<Rightarrow> string \<Rightarrow> string \<Rightarrow> string \<Rightarrow> MltProperty list \<Rightarrow> MltProperty list"
where
  "filterProperties K root svc spd nr [] = []"
| "filterProperties K root svc spd nr (p # ps) =
     (if fst p = ''resource'' then
        (let nr' = toRelative root nr in
         (if svc = ''timewarp'' then (fst p, arg (arg ''%1:%2'' spd) nr') else (fst p, nr'))
           # filterProperties K root svc spd nr' ps)
      else if fst p = ''warp_resource'' then
        (fst p, nr) # filterProperties K root svc spd nr ps
      else if fst p \<noteq> kIsProxyProperty K \<and> fst p \<noteq> kOriginalResourceProperty K then
        (fst p, snd p) # filterProperties K root svc spd nr ps
      else filterProperties K root svc spd nr ps)"

definition propertiesRef :: "propertyNames \<Rightarrow> string \<Rightarrow> MltProperty list \<Rightarrow> MltProperty list" where
  \<comment> \<open>the sequence \<open>processProperties\<close> writes: \<open>propertiesRef\<close> at line 287\<close>
  "propertiesRef K root properties =
     (let s = scanProperties K properties in
      if isProxy s then filterProperties K root (service s) (speed s) (newResource s) properties
      else properties)"

section \<open>The document rewriter: \<open>ProxyManager::filterXML\<close>\<close>

text \<open>
  The input is the sequence of tokens \<open>QXmlStreamReader::readNext\<close> delivers, one
  constructor per \<open>TokenType\<close> with the fields \<open>filterXML\<close> reads: the version and the
  standalone flag of the document, the namespace, the name and the attributes of a start
  element, the name of an end element, the text of characters, comments and the DTD, the
  name and the text of an entity reference, the target and the data of a processing
  instruction. \<open>Invalid\<close> is what the reader returns where the input is not well-formed; a
  sequence that stops before \<open>EndDocument\<close> is a document that ends too early, which the
  reader reports as an error, too.
\<close>

record xmlAttribute =
  attributeNamespaceUri :: string
  qualifiedName :: string
  attributeValue :: string

datatype token =
    NoToken
  | Invalid
  | StartDocument string bool
  | EndDocument
  | StartElement string string "xmlAttribute list"
  | EndElement string
  | Characters string
  | Comment string
  | DTD string
  | EntityReference string string
  | ProcessingInstruction string string

text \<open>The calls on the \<open>QXmlStreamWriter\<close>, in the order they are made.\<close>

datatype writerCall =
    WriteCharacters string
  | WriteComment string
  | WriteDTD string
  | WriteEntityReference string
  | WriteProcessingInstruction string string
  | WriteStartDocument string bool
  | WriteEndDocument
  | WriteStartElement string
  | WriteStartElementNS string string
  | WriteAttribute string string
  | WriteAttributeOf xmlAttribute
  | WriteEndElement

definition attributesValue :: "xmlAttribute list \<Rightarrow> string \<Rightarrow> string" where
  \<comment> \<open>\<open>xml.attributes().value(name)\<close>: the first attribute of that name, or the null string\<close>
  "attributesValue attrs n =
     (case List.find (\<lambda>a. qualifiedName a = n) attrs of
        None \<Rightarrow> []
      | Some a \<Rightarrow> attributeValue a)"

text \<open>
  \<open>QXmlStreamReader::readElementText()\<close>, called on a start element: the text up to the end
  element, skipping comments and processing instructions; any other token is an error
  (a child element is ``unexpected''). The result is the text, the tokens left after the
  end element, and whether the reader is now in error.
\<close>

fun readElementText :: "token list \<Rightarrow> string \<times> token list \<times> bool" where
  "readElementText [] = ([], [], True)"
| "readElementText (Characters s # ts) =
     (let r = readElementText ts in (s @ fst r, snd r))"
| "readElementText (EntityReference n s # ts) =
     (let r = readElementText ts in (s @ fst r, snd r))"
| "readElementText (EndElement n # ts) = ([], ts, False)"
| "readElementText (ProcessingInstruction t d # ts) = readElementText ts"
| "readElementText (Comment s # ts) = readElementText ts"
| "readElementText (t # ts) = ([], ts, True)"

text \<open>The locals of \<open>filterXML\<close> that its loop changes, and the error flag of the reader.\<close>

record rewriter =
  written :: "writerCall list"
  properties :: "MltProperty list"
  isPropertyElement :: bool
  hasError :: bool

definition emit :: "writerCall list \<Rightarrow> rewriter \<Rightarrow> rewriter" where
  "emit calls st = st\<lparr>written := written st @ calls\<rparr>"

definition writeProperty :: "MltProperty \<Rightarrow> writerCall list" where
  \<comment> \<open>lines 288 to 291\<close>
  "writeProperty p =
     [WriteStartElement ''property'', WriteAttribute ''name'' (fst p),
      WriteCharacters (snd p), WriteEndElement]"

definition processProperties :: "propertyNames \<Rightarrow> string \<Rightarrow> rewriter \<Rightarrow> rewriter" where
  "processProperties K root st =
     (emit (concat (map writeProperty (propertiesRef K root (properties st)))) st)
       \<lparr>properties := []\<rparr>"

text \<open>
  The loop of \<open>filterXML\<close>. It ends at \<open>EndDocument\<close> and at an error (\<open>atEnd()\<close> holds in
  both cases).
\<close>

function (sequential) filterLoop ::
  "propertyNames \<Rightarrow> string \<Rightarrow> rewriter \<Rightarrow> token list \<Rightarrow> rewriter"
where
  "filterLoop K root st [] = st\<lparr>hasError := True\<rparr>"
| "filterLoop K root st (Characters s # ts) =
     filterLoop K root (if \<not> isPropertyElement st then emit [WriteCharacters s] st else st) ts"
| "filterLoop K root st (Comment s # ts) = filterLoop K root (emit [WriteComment s] st) ts"
| "filterLoop K root st (DTD s # ts) = filterLoop K root (emit [WriteDTD s] st) ts"
| "filterLoop K root st (EntityReference n s # ts) =
     filterLoop K root (emit [WriteEntityReference n] st) ts"
| "filterLoop K root st (ProcessingInstruction t d # ts) =
     filterLoop K root (emit [WriteProcessingInstruction t d] st) ts"
| "filterLoop K root st (StartDocument v sa # ts) =
     filterLoop K root (emit [WriteStartDocument v sa] st) ts"
| "filterLoop K root st (EndDocument # ts) = emit [WriteEndDocument] st"
| "filterLoop K root st (StartElement ns element attrs # ts) =
     (if element = ''property'' then
        (let name = attributesValue attrs ''name'';
             r = readElementText ts;
             st' = st\<lparr>properties := properties st @ [(name, fst r)], isPropertyElement := True\<rparr>
         in if snd (snd r) then st'\<lparr>hasError := True\<rparr>
            else filterLoop K root st' (fst (snd r)))
      else
        filterLoop K root
          (emit (WriteStartElementNS ns element # map WriteAttributeOf attrs)
             (processProperties K root (st\<lparr>isPropertyElement := False\<rparr>)))
          ts)"
| "filterLoop K root st (EndElement n # ts) =
     (if n \<noteq> ''property'' then
        filterLoop K root (emit [WriteEndElement] (processProperties K root st)) ts
      else filterLoop K root st ts)"
| "filterLoop K root st (Invalid # ts) = st\<lparr>hasError := True\<rparr>"
| "filterLoop K root st (NoToken # ts) = filterLoop K root st ts"
  by pat_completeness auto
termination
proof -
  have rest: "length (fst (snd (readElementText ts))) \<le> length ts" for ts
    by (induction ts rule: readElementText.induct) (auto simp: Let_def)
  show ?thesis
    by (relation "measure (\<lambda>(K, root, st, ts). length ts)") (auto simp: le_imp_less_Suc rest)
qed

text \<open>
  \<open>filterXML\<close>. The file named \<open>fileName\<close> is given by whether it can be opened and by its
  tokens, the temporary file by whether it can be opened and by its name. The outcome is the
  value returned, the caller's \<open>fileName\<close> afterwards, whether the temporary file is still
  set to be removed when \<open>tempFile\<close> goes out of scope, and what was written to it.
\<close>

record inputFile =
  opens :: bool
  tokens :: "token list"

record temporaryFile =
  tempOpens :: bool
  tempFileName :: string

record filterOutcome =
  returned :: bool
  fileNameAfter :: string
  autoRemove :: bool
  tempContent :: "writerCall list"

definition filterXML ::
  "propertyNames \<Rightarrow> inputFile \<Rightarrow> temporaryFile \<Rightarrow> string \<Rightarrow> string \<Rightarrow> filterOutcome"
where
  "filterXML K file tempFile fileName root =
     (if opens file \<and> tempOpens tempFile then
        (let xml = filterLoop K root
               \<lparr>written = [], properties = [], isPropertyElement = False, hasError = False\<rparr>
               (tokens file)
         in if \<not> hasError xml then
              \<lparr>returned = True, fileNameAfter = tempFileName tempFile, autoRemove = False,
               tempContent = written xml\<rparr>
            else
              \<lparr>returned = False, fileNameAfter = fileName, autoRemove = True,
               tempContent = written xml\<rparr>)
      else \<lparr>returned = False, fileNameAfter = fileName, autoRemove = True, tempContent = []\<rparr>)"

section \<open>Producers, settings and the file system\<close>

text \<open>
  An \<open>Mlt::Producer\<close> is its validity and its properties, each a text: \<open>get\<close> returns the
  text (\<open>None\<close> for the null pointer of a property that is not set), \<open>get_int\<close> its value as
  a decimal number in the manner of C's \<open>atoi\<close>, and 0 for a property that is not set.
\<close>

record producer =
  is_valid :: bool
  props :: "string \<rightharpoonup> string"

fun leadingDigits :: "nat \<Rightarrow> string \<Rightarrow> nat" where
  "leadingDigits acc [] = acc"
| "leadingDigits acc (c # cs) =
     (case digitValue c of None \<Rightarrow> acc | Some d \<Rightarrow> leadingDigits (10 * acc + d) cs)"

definition atoi :: "string \<Rightarrow> int" where
  "atoi s =
     (case dropWhile (\<lambda>c. c = CHR '' '') s of
        [] \<Rightarrow> 0
      | c # cs \<Rightarrow>
          if c = CHR ''-'' then - int (leadingDigits 0 cs)
          else if c = CHR ''+'' then int (leadingDigits 0 cs)
          else int (leadingDigits 0 (c # cs)))"

definition get :: "producer \<Rightarrow> string \<Rightarrow> string option" where
  "get p k = props p k"

definition get_int :: "producer \<Rightarrow> string \<Rightarrow> int" where
  "get_int p k = (case props p k of None \<Rightarrow> 0 | Some s \<Rightarrow> atoi s)"

definition set_int :: "string \<Rightarrow> int \<Rightarrow> producer \<Rightarrow> producer" where
  "set_int k i p = p\<lparr>props := (props p)(k \<mapsto> number i)\<rparr>"

definition set_string :: "string \<Rightarrow> string option \<Rightarrow> producer \<Rightarrow> producer" where
  \<comment> \<open>\<open>producer.set(k, text)\<close>; setting the null pointer leaves the property without a text\<close>
  "set_string k v p = p\<lparr>props := (props p)(k := v)\<rparr>"

definition fromChars :: "string option \<Rightarrow> string" where
  \<comment> \<open>\<open>QString::fromLatin1\<close> and \<open>QString::fromUtf8\<close>: the null pointer gives the null string\<close>
  "fromChars v = (case v of None \<Rightarrow> [] | Some s \<Rightarrow> s)"

text \<open>
  What \<open>proxymanager.cpp\<close> reads from outside: the settings (\<open>Settings\<close>), the project folder
  and the colour range (\<open>MLT\<close>), the hash and the base name (\<open>Util\<close>), the translation of a
  label (\<open>QObject::tr\<close>), the file system, what \<open>get_frame\<close> does to a producer (it fills in the
  \<open>meta.media\<close> properties), and \<open>qRoundWidth p r\<close>, which stands for the width argument of the
  image job, \<open>qRound(width / height * r)\<close> in double precision on the \<open>meta.media\<close> width and
  height of \<open>p\<close>.
\<close>

record environment =
  propertyNamesOf :: propertyNames
  proxyEnabled :: bool
  proxyFolder :: string
  proxyUseProjectFolder :: bool
  proxyUseHardware :: bool
  encodeHardware :: "string list"
  playerPreviewScale :: int
  projectFolder :: string
  fullRange :: "producer \<Rightarrow> bool"
  getHash :: "producer \<Rightarrow> string"
  baseName :: "string \<Rightarrow> string"
  tr :: "string \<Rightarrow> string"
  directoryExists :: "string \<Rightarrow> bool"
  entryExists :: "string \<Rightarrow> bool"
  mkdirSucceeds :: "string \<Rightarrow> bool"
  get_frame :: "producer \<Rightarrow> producer"
  qRoundWidth :: "producer \<Rightarrow> int \<Rightarrow> int"

text \<open>
  A \<open>QDir\<close> is its path. \<open>QDir(path)\<close> is the current directory for the empty path and
  drops a final separator; \<open>filePath\<close> puts one separator between the path and a relative file
  name; \<open>cd\<close> changes the path when the directory exists; \<open>exists(name)\<close> asks the file
  system for the entry of that name in the directory.
\<close>

definition QDir :: "string \<Rightarrow> string" where
  "QDir path =
     (if path = [] then ''.''
      else if 1 < length path \<and> last path = CHR ''/'' then butlast path
      else path)"

definition filePath :: "string \<Rightarrow> string \<Rightarrow> string" where
  "filePath d fileName =
     (if fileName \<noteq> [] \<and> hd fileName = CHR ''/'' then fileName
      else if fileName = [] then d
      else if d = [] \<or> last d = CHR ''/'' then d @ fileName
      else d @ ''/'' @ fileName)"

definition cd :: "environment \<Rightarrow> string \<Rightarrow> string \<Rightarrow> bool \<times> string" where
  "cd E d sub = (if directoryExists E (filePath d sub) then (True, filePath d sub) else (False, d))"

definition dirExistsEntry :: "environment \<Rightarrow> string \<Rightarrow> string \<Rightarrow> bool" where
  \<comment> \<open>\<open>d.exists(fileName)\<close>\<close>
  "dirExistsEntry E d fileName = entryExists E (filePath d fileName)"

section \<open>Single precision arithmetic\<close>

text \<open>
  A \<open>float\<close> is a pair \<open>(m, e)\<close> that stands for \<open>m * 2 ^ e\<close>. Every operation computes its
  result exactly and rounds it to 24 significant bits, to the nearest value and to the even
  one of two nearest values, as IEEE 754 single precision does in its default mode.
  The range of the exponent is not modelled: the values \<open>proxymanager.cpp\<close> computes from a
  32-bit \<open>int\<close> are far inside it. \<open>toInt\<close> is the conversion \<open>int(x)\<close>, which drops the
  fraction; \<open>qRound\<close> is the function of Qt 5's \<open>qglobal.h\<close>,
  \<^verbatim>\<open>d >= 0.0f ? int(d + 0.5f) : int(d - float(int(d-1)) + 0.5f) + int(d-1)\<close>.
\<close>

type_synonym single = "int \<times> int"

function bitLength :: "int \<Rightarrow> nat" where
  "bitLength n = (if n \<le> 0 then 0 else Suc (bitLength (n div 2)))"
  by pat_completeness auto
termination
  by (relation "measure nat") auto

declare bitLength.simps [simp del]

definition roundSingle :: "single \<Rightarrow> single" where
  "roundSingle x =
     (let m = fst x; e = snd x; n = \<bar>m\<bar>; l = bitLength n in
      if l \<le> 24 then (m, e)
      else
        (let d = l - 24; q = n div 2 ^ d; r = n mod 2 ^ d; h = 2 ^ (d - 1);
             q' = (if h < r \<or> (r = h \<and> odd q) then q + 1 else q)
         in (sgn m * q', e + int d)))"

definition fadd :: "single \<Rightarrow> single \<Rightarrow> single" where
  "fadd a b =
     (let e = min (snd a) (snd b) in
      roundSingle (fst a * 2 ^ nat (snd a - e) + fst b * 2 ^ nat (snd b - e), e))"

definition fsub :: "single \<Rightarrow> single \<Rightarrow> single" where
  "fsub a b = fadd a (- fst b, snd b)"

definition fmul :: "single \<Rightarrow> single \<Rightarrow> single" where
  "fmul a b = roundSingle (fst a * fst b, snd a + snd b)"

definition ofInt :: "int \<Rightarrow> single" where
  \<comment> \<open>the conversion of an \<open>int\<close> operand to \<open>float\<close>\<close>
  "ofInt i = roundSingle (i, 0)"

definition toInt :: "single \<Rightarrow> int" where
  "toInt a =
     (if 0 \<le> snd a then fst a * 2 ^ nat (snd a)
      else sgn (fst a) * (\<bar>fst a\<bar> div 2 ^ nat (- snd a)))"

definition qRound :: "single \<Rightarrow> int" where
  "qRound d =
     (if 0 \<le> fst d then toInt (fadd d (1, - 1))
      else toInt (fadd (fsub d (ofInt (toInt (fsub d (1, 0))))) (1, - 1))
           + toInt (fsub d (1, 0)))"

section \<open>The constants and accessors of \<open>proxymanager.cpp\<close>\<close>

definition kProxyVideoExtension :: string where
  "kProxyVideoExtension = ''.mp4''"

definition kProxyPendingVideoExtension :: string where
  "kProxyPendingVideoExtension = ''.pending.mp4''"

definition kProxyImageExtension :: string where
  "kProxyImageExtension = ''.jpg''"

definition kProxyPendingImageExtension :: string where
  "kProxyPendingImageExtension = ''.pending.jpg''"

definition kProxyResolutionRatio :: single where
  \<comment> \<open>\<open>1.3f\<close>: the single precision number nearest to 1.3, \<open>10905190 / 2 ^ 23\<close>\<close>
  "kProxyResolutionRatio = (10905190, - 23)"

definition kFallbackProxyResolution :: int where
  "kFallbackProxyResolution = 540"

definition videoFilenameExtension :: string where
  "videoFilenameExtension = kProxyVideoExtension"

definition pendingVideoExtension :: string where
  "pendingVideoExtension = kProxyPendingVideoExtension"

definition imageFilenameExtension :: string where
  "imageFilenameExtension = kProxyImageExtension"

definition pendingImageExtension :: string where
  \<comment> \<open>line 479 returns \<open>kProxyImageExtension\<close>\<close>
  "pendingImageExtension = kProxyImageExtension"

definition resolution :: "environment \<Rightarrow> int" where
  "resolution E =
     (if playerPreviewScale E \<noteq> 0 then playerPreviewScale E else kFallbackProxyResolution)"

definition isValidImage :: "environment \<Rightarrow> producer \<Rightarrow> bool" where
  "isValidImage E p =
     (let service = fromChars (get p ''mlt_service'') in
      (service = ''qimage'' \<or> service = ''pixbuf'')
      \<and> get_int p (kShotcutSequenceProperty (propertyNamesOf E)) = 0)"

section \<open>Effects\<close>

text \<open>
  What the functions do to the file system and to the job queue, as the sequence of the
  operations they issue: \<open>mkdir\<close> in a directory, the three calls on the \<open>QFile\<close> of the
  pending path, \<open>get_frame\<close> on the producer, and \<open>JOBS.add\<close> with the job, its label and its
  post-job action.
\<close>

datatype postJobAction =
    ProxyReplacePostJobAction string string string
  | ProxyFinalizePostJobAction string

datatype job =
    FfmpegJob string "string list" bool
  | MeltJob string "string list" int int

record jobRequest =
  theJob :: job
  label :: string
  postAction :: postJobAction

datatype effect =
    Mkdir string string
  | FileOpenWriteOnly string
  | FileResize string nat
  | FileClose string
  | GetFrame
  | JobsAdd jobRequest

definition dir :: "environment \<Rightarrow> string \<times> effect list" where
  "dir E =
     (let d = QDir (projectFolder E) in
      if \<not> isEmpty (projectFolder E) \<and> directoryExists E d \<and> proxyUseProjectFolder E then
        (let subfolder = ''proxies'' in
         if \<not> fst (cd E d subfolder) then
           (if mkdirSucceeds E (filePath d subfolder)
            then (filePath d subfolder, [Mkdir d subfolder])
            else (d, [Mkdir d subfolder]))
         else (snd (cd E d subfolder), []))
      else (QDir (proxyFolder E), []))"

definition resource :: "environment \<Rightarrow> producer \<Rightarrow> string" where
  "resource E p =
     (let K = propertyNamesOf E in
      if get_int p (kIsProxyProperty K) \<noteq> 0 \<and> get p (kOriginalResourceProperty K) \<noteq> None
      then fromChars (get p (kOriginalResourceProperty K))
      else if get p ''mlt_service'' = Some ''timewarp'' then fromChars (get p ''warp_resource'')
      else fromChars (get p ''resource''))"

section \<open>The derivation jobs\<close>

datatype ScanMode =
    Automatic
  | Progressive
  | InterlacedTopFieldFirst
  | InterlacedBottomFieldFirst

definition touch :: "string \<Rightarrow> effect list" where
  \<comment> \<open>``Touch file to make it in progress'': \<open>open\<close>, \<open>resize(0)\<close>, \<open>close\<close>\<close>
  "touch fileName = [FileOpenWriteOnly fileName, FileResize fileName 0, FileClose fileName]"

definition deinterlaceFilter :: "ScanMode \<Rightarrow> string" where
  \<comment> \<open>lines 103 to 107: \<open>filters\<close> before the scale stage is appended\<close>
  "deinterlaceFilter scanMode =
     (if scanMode = Automatic then ''yadif=deint=interlaced,''
      else if scanMode \<noteq> Progressive then
        arg ''yadif=parity=%1,'' (if scanMode = InterlacedTopFieldFirst then ''tff'' else ''bff'')
      else [])"

definition videoFilter :: "environment \<Rightarrow> bool \<Rightarrow> ScanMode \<Rightarrow> string" where
  \<comment> \<open>lines 103 to 118: the argument that follows \<open>-vf\<close>\<close>
  "videoFilter E fullRng scanMode =
     (let hwCodecs = encodeHardware E;
          filters = deinterlaceFilter scanMode
                    @ arg ''scale=width=-2:height=%1'' (number (resolution E));
          hwFilters = (if proxyUseHardware E
                          \<and> (''hevc_vaapi'' \<in> set hwCodecs \<or> ''h264_vaapi'' \<in> set hwCodecs)
                       then '',format=nv12,hwupload'' else [])
      in if fullRng then filters @ '':in_range=full:out_range=full'' @ hwFilters
         else filters @ '':in_range=mpeg:out_range=mpeg'' @ hwFilters)"

definition colorspaceArgs :: "producer \<Rightarrow> string list" where
  \<comment> \<open>the \<open>switch\<close> of lines 119 to 151\<close>
  "colorspaceArgs p =
     (let c = get_int p ''meta.media.colorspace'' in
      if c = 601 then
        (if get_int p ''meta.media.height'' = 576
         then [''-color_primaries'', ''bt470bg'', ''-color_trc'', ''smpte170m'',
               ''-colorspace'', ''bt470bg'']
         else [''-color_primaries'', ''smpte170m'', ''-color_trc'', ''smpte170m'',
               ''-colorspace'', ''smpte170m''])
      else if c = 170 then
        [''-color_primaries'', ''smpte170m'', ''-color_trc'', ''smpte170m'',
         ''-colorspace'', ''smpte170m'']
      else if c = 240 then
        [''-color_primaries'', ''smpte240m'', ''-color_trc'', ''smpte240m'',
         ''-colorspace'', ''smpte240m'']
      else if c = 470 then
        [''-color_primaries'', ''bt470bg'', ''-color_trc'', ''bt470bg'',
         ''-colorspace'', ''bt470bg'']
      else
        [''-color_primaries'', ''bt709'', ''-color_trc'', ''bt709'', ''-colorspace'', ''bt709''])"

definition hardwareEncoderArgs :: "environment \<Rightarrow> string list" where
  \<comment> \<open>lines 157 to 183\<close>
  "hardwareEncoderArgs E =
     (let hwCodecs = encodeHardware E in
      if proxyUseHardware E then
        (if ''hevc_nvenc'' \<in> set hwCodecs then
           [''-codec:v'', ''hevc_nvenc'', ''-rc'', ''constqp'', ''-vglobal_quality'', ''37'']
         else if ''hevc_qsv'' \<in> set hwCodecs then
           [''-load_plugin'', ''hevc_hw'', ''-codec:v'', ''hevc_qsv'', ''-global_quality:v'', ''36'',
            ''-look_ahead'', ''1'']
         else if ''hevc_amf'' \<in> set hwCodecs then
           [''-codec:v'', ''hevc_amf'', ''-rc'', ''1'', ''-qp_i'', ''32'', ''-qp_p'', ''32'']
         else if ''hevc_vaapi'' \<in> set hwCodecs then
           [''-init_hw_device'', ''vaapi=vaapi0:,connection_type=x11'', ''-filter_hw_device'',
            ''vaapi0'', ''-codec:v'', ''hevc_vaapi'', ''-qp'', ''37'']
         else if ''h264_vaapi'' \<in> set hwCodecs then
           [''-init_hw_device'', ''vaapi=vaapi0:,connection_type=x11'', ''-filter_hw_device'',
            ''vaapi0'', ''-codec:v'', ''h264_vaapi'', ''-qp'', ''30'']
         else if ''hevc_videotoolbox'' \<in> set hwCodecs then
           [''-codec:v'', ''hevc_videotoolbox'', ''-b:v'', ''2M'']
         else [])
      else [])"

definition hardwareArgs ::
  "environment \<Rightarrow> producer \<Rightarrow> bool \<Rightarrow> ScanMode \<Rightarrow> int \<times> int \<Rightarrow> string list"
where
  \<comment> \<open>\<open>args\<close> of \<open>generateVideoProxy\<close> as lines 92 to 183 build it\<close>
  "hardwareArgs E p fullRng scanMode aspectRatio =
     [''-loglevel'', ''verbose'', ''-i'', resource E p, ''-max_muxing_queue_size'', ''9999'']
     @ (if get_int p ''video_index'' < get_int p ''audio_index''
        then [''-map'', ''0:v?'', ''-map'', ''0:a?'']
        else [''-map'', ''0:a?'', ''-map'', ''0:v?''])
     @ [''-map_metadata'', ''0'', ''-ignore_unknown'', ''-vf'']
     @ [videoFilter E fullRng scanMode]
     @ [''-color_range'', if fullRng then ''jpeg'' else ''mpeg'']
     @ colorspaceArgs p
     @ (if aspectRatio \<noteq> (0, 0)
        then [''-aspect'',
              arg (arg ''%1:%2'' (number (fst aspectRatio))) (number (snd aspectRatio))]
        else [])
     @ [''-f'', ''mp4'', ''-codec:a'', ''ac3'', ''-b:a'', ''256k'', ''-pix_fmt'', ''yuv420p'']
     @ hardwareEncoderArgs E"

definition videoArgs ::
  "environment \<Rightarrow> producer \<Rightarrow> bool \<Rightarrow> ScanMode \<Rightarrow> int \<times> int \<Rightarrow> string \<Rightarrow> string list"
where
  \<comment> \<open>\<open>args\<close> of \<open>generateVideoProxy\<close>, lines 92 to 190, for the pending path \<open>fileName\<close>\<close>
  "videoArgs E p fullRng scanMode aspectRatio fileName =
     (let args = hardwareArgs E p fullRng scanMode aspectRatio;
          args = (if ''-codec:v'' \<notin> set args
                  then args @ [''-codec:v'', ''libx264'', ''-preset'', ''veryfast'', ''-crf'', ''23'']
                  else args)
      in args @ [''-g'', ''1'', ''-bf'', ''0'', ''-y'', fileName])"

definition makeLabel :: "environment \<Rightarrow> string \<Rightarrow> string" where
  \<comment> \<open>\<open>QObject::tr("Make proxy for %1").arg(Util::baseName(resource))\<close>\<close>
  "makeLabel E res = arg (tr E ''Make proxy for %1'') (baseName E res)"

definition generateVideoProxy ::
  "environment \<Rightarrow> producer \<Rightarrow> bool \<Rightarrow> ScanMode \<Rightarrow> int \<times> int \<Rightarrow> bool \<Rightarrow> effect list"
where
  "generateVideoProxy E p fullRng scanMode aspectRatio replace =
     (let res = resource E p;
          hash = getHash E p;
          d = dir E;
          fileName = filePath (fst d) (hash @ kProxyPendingVideoExtension);
          args = videoArgs E p fullRng scanMode aspectRatio fileName;
          j = \<lparr>theJob = FfmpegJob fileName args False,
               label = makeLabel E res,
               postAction = (if replace then ProxyReplacePostJobAction res fileName hash
                             else ProxyFinalizePostJobAction fileName)\<rparr>
      in snd d @ touch fileName @ [JobsAdd j])"

definition imageArgs :: "environment \<Rightarrow> producer \<Rightarrow> string \<Rightarrow> string list" where
  \<comment> \<open>\<open>args\<close> of \<open>generateImageProxy\<close>, lines 219 to 224\<close>
  "imageArgs E p fileName =
     [''-verbose'', ''-profile'', ''square_pal'', resource E p, ''out=0'', ''-consumer'',
      arg ''avformat:%1'' fileName,
      arg ''width=%1'' (number (qRoundWidth E p (resolution E))),
      arg ''height=%1'' (number (resolution E)),
      ''pix_fmt=yuvj422p'', ''color_range=full'']"

definition generateImageProxy :: "environment \<Rightarrow> producer \<Rightarrow> bool \<Rightarrow> effect list" where
  "generateImageProxy E p replace =
     (let res = resource E p;
          hash = getHash E p;
          d = dir E;
          fileName = filePath (fst d) (hash @ kProxyPendingImageExtension);
          args = imageArgs E p fileName;
          j = \<lparr>theJob = MeltJob fileName args 1 1,
               label = makeLabel E res,
               postAction = (if replace then ProxyReplacePostJobAction res fileName hash
                             else ProxyFinalizePostJobAction fileName)\<rparr>
      in snd d @ touch fileName @ [JobsAdd j])"

section \<open>The cache locator and \<open>generateIfNotExists\<close>\<close>

definition proxyFileName :: "environment \<Rightarrow> producer \<Rightarrow> string \<Rightarrow> string \<Rightarrow> string option" where
  \<comment> \<open>the choice of \<open>fileName\<close> that \<open>fileExists\<close>, \<open>filePending\<close> and \<open>generateIfNotExists\<close>
      each make: the video extension for an \<open>avformat\<close> service, the image extension for a
      valid image, and no name (\<open>return false\<close>) otherwise\<close>
  "proxyFileName E p videoExtension imageExtension =
     (let service = fromChars (get p ''mlt_service'') in
      if startsWith service ''avformat'' then Some (getHash E p @ videoExtension)
      else if isValidImage E p then Some (getHash E p @ imageExtension)
      else None)"

definition existsInEither :: "environment \<Rightarrow> string \<Rightarrow> bool" where
  \<comment> \<open>lines 396 and 412:
      \<open>(projectDir.cd("proxies") && projectDir.exists(fileName)) || proxyDir.exists(fileName)\<close>\<close>
  "existsInEither E fileName =
     (let proxyDir = QDir (proxyFolder E);
          projectDir = QDir (projectFolder E);
          c = cd E projectDir ''proxies''
      in (fst c \<and> dirExistsEntry E (snd c) fileName) \<or> dirExistsEntry E proxyDir fileName)"

definition fileExists :: "environment \<Rightarrow> producer \<Rightarrow> bool" where
  "fileExists E p =
     (case proxyFileName E p kProxyVideoExtension kProxyImageExtension of
        None \<Rightarrow> False
      | Some fileName \<Rightarrow> existsInEither E fileName)"

definition filePending :: "environment \<Rightarrow> producer \<Rightarrow> bool" where
  "filePending E p =
     (case proxyFileName E p kProxyPendingVideoExtension kProxyPendingImageExtension of
        None \<Rightarrow> False
      | Some fileName \<Rightarrow> existsInEither E fileName)"

text \<open>
  \<open>generateIfNotExists\<close>: the value returned, the producer afterwards, and the effects.
\<close>

definition generateIfNotExists ::
  "environment \<Rightarrow> producer \<Rightarrow> bool \<Rightarrow> bool \<times> producer \<times> effect list"
where
  "generateIfNotExists E p replace =
     (let K = propertyNamesOf E in
      if proxyEnabled E \<and> is_valid p \<and> get_int p (kDisableProxyProperty K) = 0
         \<and> get_int p (kIsProxyProperty K) = 0
      then
        (let service = fromChars (get p ''mlt_service'') in
         if fileExists E p then
           (let proxyDir = QDir (proxyFolder E);
                projectDir = QDir (projectFolder E)
            in case proxyFileName E p kProxyVideoExtension kProxyImageExtension of
                 None \<Rightarrow> (False, p, [])
               | Some fileName \<Rightarrow>
                   (let p1 = set_int (kIsProxyProperty K) 1 p;
                        p2 = set_string (kOriginalResourceProperty K) (get p1 ''resource'') p1;
                        p3 = (if dirExistsEntry E projectDir fileName
                              then set_string ''resource'' (Some (filePath projectDir fileName)) p2
                              else set_string ''resource'' (Some (filePath proxyDir fileName)) p2)
                    in (True, p3, [])))
         else if \<not> filePending E p then
           (if startsWith service ''avformat'' then
              (let p1 = get_frame E p;
                   threshold = qRound (fmul kProxyResolutionRatio (ofInt (resolution E)))
               in if get_int p1 ''meta.media.width'' > threshold
                     \<and> get_int p1 ''meta.media.height'' > threshold
                  then (False, p1,
                        GetFrame # generateVideoProxy E p1 (fullRange E p1) Automatic (0, 0) replace)
                  else (False, p1, [GetFrame]))
            else if isValidImage E p then
              (let p1 = get_frame E p;
                   threshold = qRound (fmul kProxyResolutionRatio (ofInt (resolution E)))
               in if get_int p1 ''meta.media.width'' > threshold
                     \<and> get_int p1 ''meta.media.height'' > threshold
                  then (False, p1, GetFrame # generateImageProxy E p1 replace)
                  else (False, p1, [GetFrame]))
            else (False, p, []))
         else (False, p, []))
      else (False, p, []))"

section \<open>Notions used to state the properties\<close>

definition nameSet :: "MltProperty list \<Rightarrow> string set" where
  \<comment> \<open>the names that occur in a buffer of properties\<close>
  "nameSet ps = fst ` set ps"

definition lastValue :: "string \<Rightarrow> MltProperty list \<Rightarrow> string option" where
  \<comment> \<open>the value of the last property of that name in a buffer\<close>
  "lastValue k ps = map_of (rev ps) k"

definition sampleNames :: propertyNames where
  \<comment> \<open>an instance of the four names, for the examples\<close>
  "sampleNames =
     \<lparr>kIsProxyProperty = ''shotcut:proxy'',
      kOriginalResourceProperty = ''shotcut:originalResource'',
      kDisableProxyProperty = ''shotcut:disableProxy'',
      kShotcutSequenceProperty = ''shotcut:sequence''\<rparr>"

subsection \<open>The original path of a scope\<close>

text \<open>
  What a scope of properties says, read off the buffer without the loops of
  \<open>processProperties\<close>. The original path is the value of the last original-resource
  property when that value is not empty; otherwise the first non-empty \<open>resource\<close> value that
  follows the last original-resource property, or of the whole scope when it has none; the
  empty string when there is no such value. The service and the speed are the values of the
  last \<open>mlt_service\<close> and \<open>warp_speed\<close>, with the defaults of lines 243 and 244.
  \<open>relativePaths root r n\<close> is \<open>r\<close> made relative to \<open>root\<close> once, twice, up to \<open>n\<close> times, and
  \<open>valuesOf k ps\<close> the values of the properties named \<open>k\<close>, in order.
\<close>

definition afterLast :: "string \<Rightarrow> MltProperty list \<Rightarrow> MltProperty list" where
  "afterLast k ps = rev (takeWhile (\<lambda>p. fst p \<noteq> k) (rev ps))"

definition firstNonEmpty :: "string \<Rightarrow> MltProperty list \<Rightarrow> string" where
  "firstNonEmpty k ps =
     (case List.find (\<lambda>p. fst p = k \<and> snd p \<noteq> []) ps of None \<Rightarrow> [] | Some p \<Rightarrow> snd p)"

definition originalPath :: "propertyNames \<Rightarrow> MltProperty list \<Rightarrow> string" where
  "originalPath K ps =
     (case lastValue (kOriginalResourceProperty K) ps of
        Some v \<Rightarrow>
          if v \<noteq> [] then v
          else firstNonEmpty ''resource'' (afterLast (kOriginalResourceProperty K) ps)
      | None \<Rightarrow> firstNonEmpty ''resource'' ps)"

definition scopeService :: "MltProperty list \<Rightarrow> string" where
  "scopeService ps = (case lastValue ''mlt_service'' ps of None \<Rightarrow> [] | Some v \<Rightarrow> v)"

definition scopeSpeed :: "MltProperty list \<Rightarrow> string" where
  "scopeSpeed ps = (case lastValue ''warp_speed'' ps of None \<Rightarrow> ''1'' | Some v \<Rightarrow> v)"

primrec relativePaths :: "string \<Rightarrow> string \<Rightarrow> nat \<Rightarrow> string list" where
  "relativePaths root r 0 = []"
| "relativePaths root r (Suc n) = toRelative root r # relativePaths root (toRelative root r) n"

definition valuesOf :: "string \<Rightarrow> MltProperty list \<Rightarrow> string list" where
  "valuesOf k ps = map snd (filter (\<lambda>p. fst p = k) ps)"

subsection \<open>Errors of the reader\<close>

text \<open>
  Whether the reader is in error when the loop of \<open>filterXML\<close> ends: it fails at \<open>Invalid\<close>,
  at a document that ends too early, and inside a \<open>property\<close> element that holds something
  else than text, where \<open>readElementText\<close> fails; it does not read beyond the end of the
  document.
\<close>

function parseError :: "token list \<Rightarrow> bool" where
  "parseError [] = True"
| "parseError (t # ts) =
     (case t of
        EndDocument \<Rightarrow> False
      | Invalid \<Rightarrow> True
      | StartElement ns element attrs \<Rightarrow>
          (if element = ''property'' then
             (let r = readElementText ts in
              if snd (snd r) then True else parseError (fst (snd r)))
           else parseError ts)
      | _ \<Rightarrow> parseError ts)"
  by pat_completeness auto
termination
proof -
  have rest: "length (fst (snd (readElementText ts))) \<le> length ts" for ts
    by (induction ts rule: readElementText.induct) (auto simp: Let_def)
  show ?thesis
    by (relation "measure length") (auto simp: le_imp_less_Suc rest)
qed

definition initial :: rewriter where
  \<comment> \<open>the locals of \<open>filterXML\<close> before its loop\<close>
  "initial = \<lparr>written = [], properties = [], isPropertyElement = False, hasError = False\<rparr>"

subsection \<open>Examples\<close>

text \<open>
  An environment for the examples: a project folder \<open>/p\<close> with its \<open>proxies\<close> folder, the
  global proxy folder \<open>/g\<close>, one ready proxy \<open>/p/proxies/H.mp4\<close>, and no preview scale (the
  resolution is 540).
\<close>

definition exampleEnvironment :: environment where
  "exampleEnvironment =
     \<lparr>propertyNamesOf = sampleNames, proxyEnabled = True, proxyFolder = ''/g'',
      proxyUseProjectFolder = True, proxyUseHardware = False, encodeHardware = [],
      playerPreviewScale = 0, projectFolder = ''/p'',
      fullRange = (\<lambda>p. False), getHash = (\<lambda>p. ''H''), baseName = (\<lambda>r. r), tr = (\<lambda>s. s),
      directoryExists = (\<lambda>d. d = ''/p'' \<or> d = ''/p/proxies'' \<or> d = ''/g''),
      entryExists = (\<lambda>f. f = ''/p/proxies/H.mp4''),
      mkdirSucceeds = (\<lambda>d. True), get_frame = (\<lambda>p. p),
      qRoundWidth = (\<lambda>p r. 960)\<rparr>"

definition emptyCacheEnvironment :: environment where
  \<comment> \<open>the same with no proxy file at all\<close>
  "emptyCacheEnvironment = exampleEnvironment\<lparr>entryExists := (\<lambda>f. False)\<rparr>"

definition smallScaleEnvironment :: environment where
  \<comment> \<open>no proxy file, and a preview scale of 45\<close>
  "smallScaleEnvironment = emptyCacheEnvironment\<lparr>playerPreviewScale := 45\<rparr>"

definition exampleClip :: "string \<Rightarrow> string \<Rightarrow> producer" where
  \<comment> \<open>a video clip of the given width and height\<close>
  "exampleClip w h =
     \<lparr>is_valid = True,
      props = [''mlt_service'' \<mapsto> ''avformat'', ''resource'' \<mapsto> ''/media/clip.mov'',
               ''meta.media.width'' \<mapsto> w, ''meta.media.height'' \<mapsto> h]\<rparr>"

definition goodFile :: inputFile where
  "goodFile =
     \<lparr>opens = True,
      tokens = [StartDocument ''1.0'' False, StartElement [] ''mlt'' [], EndElement ''mlt'',
                EndDocument]\<rparr>"

definition badFile :: inputFile where
  \<comment> \<open>not well-formed after the start tag\<close>
  "badFile =
     \<lparr>opens = True,
      tokens = [StartDocument ''1.0'' False, StartElement [] ''mlt'' [], Invalid]\<rparr>"

definition exampleTemporary :: temporaryFile where
  "exampleTemporary = \<lparr>tempOpens = True, tempFileName = ''/p/shotcut-AbCdEf.mlt''\<rparr>"

definition nameAttribute :: "string \<Rightarrow> xmlAttribute" where
  \<comment> \<open>the attribute \<open>name="n"\<close>\<close>
  "nameAttribute n = \<lparr>attributeNamespaceUri = [], qualifiedName = ''name'', attributeValue = n\<rparr>"

definition commentedFile :: inputFile where
  \<comment> \<open>a producer with a comment between its two properties\<close>
  "commentedFile =
     \<lparr>opens = True,
      tokens =
        [StartDocument ''1.0'' False,
         StartElement [] ''producer'' [],
         StartElement [] ''property'' [nameAttribute ''length''], Characters ''100'',
         EndElement ''property'',
         Comment ''c'',
         StartElement [] ''property'' [nameAttribute ''eof''], Characters ''pause'',
         EndElement ''property'',
         EndElement ''producer'',
         EndDocument]\<rparr>"

definition plainFile :: inputFile where
  \<comment> \<open>a producer that is not a proxy, with the white space between the elements\<close>
  "plainFile =
     \<lparr>opens = True,
      tokens =
        [StartDocument ''1.0'' False,
         StartElement [] ''mlt'' [], Characters '' '',
         StartElement [] ''producer''
           [\<lparr>attributeNamespaceUri = [], qualifiedName = ''id'', attributeValue = ''producer0''\<rparr>],
         Characters '' '',
         StartElement [] ''property'' [nameAttribute ''resource''], Characters ''clip.mov'',
         EndElement ''property'', Characters '' '',
         StartElement [] ''property'' [nameAttribute ''mlt_service''], Characters ''avformat'',
         EndElement ''property'', Characters '' '',
         EndElement ''producer'', Characters '' '',
         EndElement ''mlt'',
         EndDocument]\<rparr>"

definition proxyFile :: inputFile where
  \<comment> \<open>a producer that is a proxy for \<open>/a/b/c.mov\<close>\<close>
  "proxyFile =
     \<lparr>opens = True,
      tokens =
        [StartDocument ''1.0'' False,
         StartElement [] ''producer'' [],
         StartElement [] ''property'' [nameAttribute ''resource''],
         Characters ''/a/proxies/h.mp4'', EndElement ''property'',
         StartElement [] ''property'' [nameAttribute ''shotcut:proxy''],
         Characters ''1'', EndElement ''property'',
         StartElement [] ''property'' [nameAttribute ''shotcut:originalResource''],
         Characters ''/a/b/c.mov'', EndElement ''property'',
         EndElement ''producer'',
         EndDocument]\<rparr>"

subsection \<open>The threshold\<close>

definition threshold :: "environment \<Rightarrow> int" where
  \<comment> \<open>the local \<open>threshold\<close> of lines 443 and 451\<close>
  "threshold E = qRound (fmul kProxyResolutionRatio (ofInt (resolution E)))"

definition roundedRatio :: "int \<Rightarrow> int" where
  \<comment> \<open>\<open>round(1.3 * r)\<close> in exact arithmetic, a half rounded away from zero\<close>
  "roundedRatio r = (if 0 \<le> r then (13 * r + 5) div 10 else - ((13 * (- r) + 5) div 10))"

subsection \<open>Arguments and filters\<close>

definition triplet :: "string \<Rightarrow> string \<Rightarrow> string \<Rightarrow> string list" where
  \<comment> \<open>the colorspace arguments: primaries, transfer, matrix\<close>
  "triplet primaries transfer matrix =
     [''-color_primaries'', primaries, ''-color_trc'', transfer, ''-colorspace'', matrix]"

fun hasPair :: "'a \<Rightarrow> 'a \<Rightarrow> 'a list \<Rightarrow> bool" where
  "hasPair a b (x # y # zs) = ((x = a \<and> y = b) \<or> hasPair a b (y # zs))"
| "hasPair a b zs = False"

section \<open>The scan and the filter of \<open>processProperties\<close>\<close>

lemma nameSet_simps [simp]:
  "nameSet [] = {}"
  "nameSet (p # ps) = insert (fst p) (nameSet ps)"
  "nameSet (ps @ qs) = nameSet ps \<union> nameSet qs"
  by (auto simp: nameSet_def)

lemma lastValue_Nil: "lastValue k [] = None"
  by (simp add: lastValue_def)

lemma lastValue_snoc:
  "lastValue k (ps @ [p]) = (if fst p = k then Some (snd p) else lastValue k ps)"
  by (cases p) (simp add: lastValue_def)

lemma scanProperties_snoc:
  "scanProperties K (ps @ [p]) = scanStep K (scanProperties K ps) p"
  by (simp add: scanProperties_def)

lemma distinctNames_facts:
  assumes "distinctNames K"
  shows "kIsProxyProperty K \<noteq> kOriginalResourceProperty K"
    and "kIsProxyProperty K \<noteq> ''resource''" and "kIsProxyProperty K \<noteq> ''warp_resource''"
    and "kIsProxyProperty K \<noteq> ''mlt_service''" and "kIsProxyProperty K \<noteq> ''warp_speed''"
    and "kOriginalResourceProperty K \<noteq> ''resource''"
    and "kOriginalResourceProperty K \<noteq> ''warp_resource''"
    and "kOriginalResourceProperty K \<noteq> ''mlt_service''"
    and "kOriginalResourceProperty K \<noteq> ''warp_speed''"
  using assms unfolding distinctNames_def literalNames_def by auto

lemma isProxy_scan: "isProxy (scanProperties K ps) = (kIsProxyProperty K \<in> nameSet ps)"
proof (induction ps rule: rev_induct)
  case Nil
  show ?case by (simp add: scanProperties_def)
next
  case (snoc p ps)
  then show ?case
    by (auto simp: scanProperties_snoc scanStep_def)
qed

lemma service_scan:
  assumes "distinctNames K"
  shows "service (scanProperties K ps) =
           (case lastValue ''mlt_service'' ps of None \<Rightarrow> [] | Some v \<Rightarrow> v)"
proof (induction ps rule: rev_induct)
  case Nil
  show ?case by (simp add: scanProperties_def lastValue_Nil)
next
  case (snoc p ps)
  then show ?case
    using distinctNames_facts [OF assms]
    by (simp add: scanProperties_snoc scanStep_def lastValue_snoc)
qed

lemma speed_scan:
  assumes "distinctNames K"
  shows "speed (scanProperties K ps) =
           (case lastValue ''warp_speed'' ps of None \<Rightarrow> ''1'' | Some v \<Rightarrow> v)"
proof (induction ps rule: rev_induct)
  case Nil
  show ?case by (simp add: scanProperties_def lastValue_Nil)
next
  case (snoc p ps)
  then show ?case
    using distinctNames_facts [OF assms]
    by (simp add: scanProperties_snoc scanStep_def lastValue_snoc)
qed

lemma afterLast_snoc:
  "afterLast k (ps @ [p]) = (if fst p = k then [] else afterLast k ps @ [p])"
  by (simp add: afterLast_def)

lemma afterLast_absent: "lastValue k ps = None \<Longrightarrow> afterLast k ps = ps"
proof (induction ps rule: rev_induct)
  case Nil
  show ?case by (simp add: afterLast_def)
next
  case (snoc p ps)
  then show ?case by (auto simp: afterLast_snoc lastValue_snoc split: if_splits)
qed

lemma firstNonEmpty_snoc:
  "firstNonEmpty k (ps @ [p]) =
     (if firstNonEmpty k ps \<noteq> [] then firstNonEmpty k ps
      else if fst p = k then snd p else [])"
proof (induction ps)
  case Nil
  show ?case by (simp add: firstNonEmpty_def)
next
  case (Cons q qs)
  then show ?case by (auto simp: firstNonEmpty_def split: option.splits)
qed

lemma firstNonEmpty_Nil: "firstNonEmpty k [] = []"
  by (simp add: firstNonEmpty_def)

lemma originalPath_alt:
  "originalPath K ps =
     (let v = (case lastValue (kOriginalResourceProperty K) ps of Some v \<Rightarrow> v | None \<Rightarrow> [])
      in if v \<noteq> [] then v
         else firstNonEmpty ''resource'' (afterLast (kOriginalResourceProperty K) ps))"
  by (auto simp: originalPath_def Let_def afterLast_absent split: option.splits)

lemma newResource_scan:
  assumes "distinctNames K"
  shows "newResource (scanProperties K ps) = originalPath K ps"
proof (induction ps rule: rev_induct)
  case Nil
  show ?case
    by (simp add: scanProperties_def originalPath_def lastValue_Nil firstNonEmpty_Nil)
next
  case (snoc p ps)
  then show ?case
    using distinctNames_facts [OF assms]
    by (auto simp: originalPath_alt Let_def scanProperties_snoc scanStep_def lastValue_snoc
        afterLast_snoc firstNonEmpty_snoc firstNonEmpty_Nil isEmpty_def
        split: option.splits if_splits)
qed

lemma filterProperties_names:
  assumes "distinctNames K"
  shows "kIsProxyProperty K \<notin> nameSet (filterProperties K root svc spd nr ps)
       \<and> kOriginalResourceProperty K \<notin> nameSet (filterProperties K root svc spd nr ps)"
  using distinctNames_facts [OF assms]
  by (induction ps arbitrary: nr) (auto simp: Let_def)

lemma filterProperties_resource:
  "map_of (filterProperties K root svc spd nr ps) ''resource'' =
     (if ''resource'' \<in> nameSet ps
      then Some (if svc = ''timewarp'' then arg (arg ''%1:%2'' spd) (toRelative root nr)
                 else toRelative root nr)
      else None)"
  by (induction ps arbitrary: nr) (auto simp: Let_def)

lemma valuesOf_simps [simp]:
  "valuesOf k [] = []"
  "valuesOf k (p # ps) = (if fst p = k then snd p # valuesOf k ps else valuesOf k ps)"
  "valuesOf k (ps @ qs) = valuesOf k ps @ valuesOf k qs"
  by (simp_all add: valuesOf_def)

lemma filterProperties_resources:
  "valuesOf ''resource'' (filterProperties K root svc spd nr ps) =
     map (\<lambda>r. if svc = ''timewarp'' then arg (arg ''%1:%2'' spd) r else r)
       (relativePaths root nr (length (valuesOf ''resource'' ps)))"
  by (induction ps arbitrary: nr) (auto simp: Let_def)






subsection \<open>The composite value of a time-remap\<close>





lemma toRelative_cases:
  "(root = [] \<or> \<not> prefix root original \<longrightarrow> toRelative root original = original)
   \<and> (\<forall>rest. root \<noteq> [] \<and> original = root @ rest \<longrightarrow>
         toRelative root original = (if last root = CHR ''/'' then rest else drop 1 rest))"
proof -
  have "startsWith original root = prefix root original"
    unfolding startsWith_def prefix_def by (metis append_eq_conv_conj append_take_drop_id)
  then show ?thesis
    by (auto simp: toRelative_def isEmpty_def endsWithChar_def mid_def)
qed

section \<open>Claims about the document rewriter\<close>

lemmas scope_defs = sampleNames_def propertiesRef_def scanProperties_def scanStep_def isEmpty_def
  toRelative_def startsWith_def endsWithChar_def mid_def arg_def escapeAt_def digitValue_def
  Let_def

lemmas scope_notions = distinctNames_def literalNames_def lastValue_def originalPath_def
  scopeService_def scopeSpeed_def afterLast_def firstNonEmpty_def

text \<open>
  C1, as stated, says that in every marked scope \<open>resource\<close> is written as the original path
  taken from the original-resource property, made relative to the root. Three marked scopes
  where it is not. With the service \<open>timewarp\<close> the value written is \<open>2:b/c.mov\<close>, the speed and
  a colon before the relative path \<open>b/c.mov\<close> (lines 272 and 273). With an empty
  original-resource property the value written comes from \<open>resource\<close> itself (line 250):
  \<open>proxies/h.mp4\<close>, where the original resource made relative is empty. With two
  \<open>resource\<close> properties the second is written with the path made relative twice (line 266
  changes \<open>newResource\<close>): \<open>b.mov\<close>, where the original resource made relative is \<open>/a/b.mov\<close>.
\<close>

theorem C1_resource_not_original_counterexample:
  "kIsProxyProperty sampleNames \<in> nameSet
      [(''resource'', ''2:/a/proxies/h.mp4''), (''shotcut:proxy'', ''1''),
       (''shotcut:originalResource'', ''/a/b/c.mov''), (''mlt_service'', ''timewarp''),
       (''warp_speed'', ''2'')]
   \<and> valuesOf ''resource'' (propertiesRef sampleNames ''/a/''
      [(''resource'', ''2:/a/proxies/h.mp4''), (''shotcut:proxy'', ''1''),
       (''shotcut:originalResource'', ''/a/b/c.mov''), (''mlt_service'', ''timewarp''),
       (''warp_speed'', ''2'')]) = [''2:b/c.mov'']
   \<and> toRelative ''/a/'' ''/a/b/c.mov'' = ''b/c.mov''
   \<and> kIsProxyProperty sampleNames \<in> nameSet
      [(''shotcut:proxy'', ''1''), (''shotcut:originalResource'', []),
       (''resource'', ''/a/proxies/h.mp4'')]
   \<and> lastValue (kOriginalResourceProperty sampleNames)
      [(''shotcut:proxy'', ''1''), (''shotcut:originalResource'', []),
       (''resource'', ''/a/proxies/h.mp4'')] = Some []
   \<and> valuesOf ''resource'' (propertiesRef sampleNames ''/a/''
      [(''shotcut:proxy'', ''1''), (''shotcut:originalResource'', []),
       (''resource'', ''/a/proxies/h.mp4'')]) = [''proxies/h.mp4'']
   \<and> toRelative ''/a/'' [] = []
   \<and> kIsProxyProperty sampleNames \<in> nameSet
      [(''shotcut:proxy'', ''1''), (''shotcut:originalResource'', ''/a//a/b.mov''),
       (''resource'', ''/a/proxies/h.mp4''), (''resource'', ''/a/proxies/h.mp4'')]
   \<and> valuesOf ''resource'' (propertiesRef sampleNames ''/a/''
      [(''shotcut:proxy'', ''1''), (''shotcut:originalResource'', ''/a//a/b.mov''),
       (''resource'', ''/a/proxies/h.mp4''), (''resource'', ''/a/proxies/h.mp4'')])
       = [''/a/b.mov'', ''b.mov'']
   \<and> toRelative ''/a/'' ''/a//a/b.mov'' = ''/a/b.mov''"
  by (simp add: scope_defs lastValue_def)

text \<open>
  C1, amended. In every scope that holds the proxy marker, the \<open>resource\<close> properties are
  written with, in order, the original path of the scope made relative to \<open>root\<close> once,
  twice and so on (so a scope with one \<open>resource\<close> gets the original path made relative
  once), each behind the speed and a colon, as \<open>QString::arg\<close> puts them into \<open>%1:%2\<close>, when
  the service of the scope is \<open>timewarp\<close>. The original path is the value of the last
  original-resource property whenever that value is not empty. Made relative means:
  unchanged when \<open>root\<close> is empty or not a prefix; otherwise the rest after \<open>root\<close>, less one
  more character when \<open>root\<close> does not end in a separator. Neither the marker nor the
  original-resource property is written. \<open>map_of\<close> reads the first property of a name.
\<close>

theorem C1_resource_restored:
  assumes "distinctNames K"
    and "kIsProxyProperty K \<in> nameSet buffer"
  shows "(scopeService buffer \<noteq> ''timewarp'' \<longrightarrow>
            valuesOf ''resource'' (propertiesRef K root buffer)
              = relativePaths root (originalPath K buffer) (length (valuesOf ''resource'' buffer)))
       \<and> (scopeService buffer = ''timewarp'' \<longrightarrow>
            valuesOf ''resource'' (propertiesRef K root buffer)
              = map (arg (arg ''%1:%2'' (scopeSpeed buffer)))
                  (relativePaths root (originalPath K buffer)
                     (length (valuesOf ''resource'' buffer))))
       \<and> (scopeService buffer \<noteq> ''timewarp'' \<and> ''resource'' \<in> nameSet buffer \<longrightarrow>
            map_of (propertiesRef K root buffer) ''resource''
              = Some (toRelative root (originalPath K buffer)))
       \<and> (\<forall>original. lastValue (kOriginalResourceProperty K) buffer = Some original
              \<and> original \<noteq> [] \<longrightarrow> originalPath K buffer = original)
       \<and> (root = [] \<or> \<not> prefix root (originalPath K buffer)
            \<longrightarrow> toRelative root (originalPath K buffer) = originalPath K buffer)
       \<and> (\<forall>rest. root \<noteq> [] \<and> originalPath K buffer = root @ rest \<longrightarrow>
             toRelative root (originalPath K buffer)
               = (if last root = CHR ''/'' then rest else drop 1 rest))
       \<and> kIsProxyProperty K \<notin> nameSet (propertiesRef K root buffer)
       \<and> kOriginalResourceProperty K \<notin> nameSet (propertiesRef K root buffer)"
proof -
  let ?s = "scanProperties K buffer"
  have marked: "isProxy ?s" using assms(2) by (simp add: isProxy_scan)
  have out: "propertiesRef K root buffer =
      filterProperties K root (scopeService buffer) (scopeSpeed buffer) (originalPath K buffer)
        buffer"
    using marked
    by (simp add: propertiesRef_def Let_def newResource_scan [OF assms(1)]
        service_scan [OF assms(1)] speed_scan [OF assms(1)] scopeService_def scopeSpeed_def)
  have orig: "\<forall>original. lastValue (kOriginalResourceProperty K) buffer = Some original
              \<and> original \<noteq> [] \<longrightarrow> originalPath K buffer = original"
    by (simp add: originalPath_def)
  show ?thesis
    unfolding out
    using filterProperties_names [OF assms(1)] orig
      toRelative_cases [of root "originalPath K buffer"]
    by (simp add: filterProperties_resources filterProperties_resource cong: map_cong)
qed

theorem C1_resource_restored_witness:
  "distinctNames sampleNames
   \<and> kIsProxyProperty sampleNames \<in> nameSet
       [(''resource'', ''/a/proxies/h.mp4''), (''shotcut:proxy'', ''1''),
        (''shotcut:originalResource'', ''/a/b/c.mov'')]
   \<and> scopeService
       [(''resource'', ''/a/proxies/h.mp4''), (''shotcut:proxy'', ''1''),
        (''shotcut:originalResource'', ''/a/b/c.mov'')] \<noteq> ''timewarp''
   \<and> originalPath sampleNames
       [(''resource'', ''/a/proxies/h.mp4''), (''shotcut:proxy'', ''1''),
        (''shotcut:originalResource'', ''/a/b/c.mov'')] = ''/a/b/c.mov''
   \<and> valuesOf ''resource'' (propertiesRef sampleNames ''/a/''
       [(''resource'', ''/a/proxies/h.mp4''), (''shotcut:proxy'', ''1''),
        (''shotcut:originalResource'', ''/a/b/c.mov'')]) = [''b/c.mov'']
   \<and> propertiesRef sampleNames ''/a/''
       [(''resource'', ''/a/proxies/h.mp4''), (''shotcut:proxy'', ''1''),
        (''shotcut:originalResource'', ''/a/b/c.mov'')] = [(''resource'', ''b/c.mov'')]
   \<and> tempContent (filterXML sampleNames proxyFile exampleTemporary ''/a/project.mlt'' ''/a/'')
       = [WriteStartDocument ''1.0'' False,
          WriteStartElementNS [] ''producer'',
          WriteStartElement ''property'', WriteAttribute ''name'' ''resource'',
          WriteCharacters ''b/c.mov'', WriteEndElement,
          WriteEndElement,
          WriteEndDocument]"
proof -
  have doc: "tempContent (filterXML sampleNames proxyFile exampleTemporary ''/a/project.mlt'' ''/a/'')
       = [WriteStartDocument ''1.0'' False,
          WriteStartElementNS [] ''producer'',
          WriteStartElement ''property'', WriteAttribute ''name'' ''resource'',
          WriteCharacters ''b/c.mov'', WriteEndElement,
          WriteEndElement,
          WriteEndDocument]"
    by (simp add: proxyFile_def exampleTemporary_def filterXML_def sampleNames_def
        nameAttribute_def attributesValue_def emit_def processProperties_def
        propertiesRef_def scanProperties_def scanStep_def isEmpty_def writeProperty_def Let_def
        toRelative_def startsWith_def endsWithChar_def mid_def)
  show ?thesis
    using C1_resource_restored [of sampleNames
      "[(''resource'', ''/a/proxies/h.mp4''), (''shotcut:proxy'', ''1''),
        (''shotcut:originalResource'', ''/a/b/c.mov'')]" "''/a/''"] doc
    by (simp add: scope_defs scope_notions)
qed




section \<open>Claims about the constants and the video arguments\<close>

text \<open>
  C5. The four suffixes have the values the claim gives, and three of the four accessors
  return them. \<open>pendingImageExtension\<close> returns \<open>kProxyImageExtension\<close>, the suffix of the
  ready image, not \<open>kProxyPendingImageExtension\<close>.
\<close>

theorem C5_pendingImageExtension:
  "kProxyVideoExtension = ''.mp4'' \<and> kProxyPendingVideoExtension = ''.pending.mp4''
   \<and> kProxyImageExtension = ''.jpg'' \<and> kProxyPendingImageExtension = ''.pending.jpg''
   \<and> videoFilenameExtension = ''.mp4'' \<and> pendingVideoExtension = ''.pending.mp4''
   \<and> imageFilenameExtension = ''.jpg''
   \<and> pendingImageExtension = ''.jpg'' \<and> pendingImageExtension \<noteq> ''.pending.jpg''"
  by (simp add: kProxyVideoExtension_def kProxyPendingVideoExtension_def kProxyImageExtension_def
      kProxyPendingImageExtension_def videoFilenameExtension_def pendingVideoExtension_def
      imageFilenameExtension_def pendingImageExtension_def)

lemma append_tail_ex:
  "\<exists>b. (if c then (a @ m @ x @ r) @ s else a @ m @ x @ r) @ t = a @ m @ x @ b"
  by (cases c) simp_all

lemma videoArgs_colorspace:
  "\<exists>a b. videoArgs E p fr sm ar fn
     = a @ [''-vf'', videoFilter E fr sm, ''-color_range'', if fr then ''jpeg'' else ''mpeg'']
         @ colorspaceArgs p @ b"
proof -
  let ?m = "[''-vf'', videoFilter E fr sm, ''-color_range'', if fr then ''jpeg'' else ''mpeg'']"
  obtain a r where 1: "hardwareArgs E p fr sm ar = a @ ?m @ colorspaceArgs p @ r"
    unfolding hardwareArgs_def by (metis append.assoc append_Cons append_Nil)
  have "\<exists>b. videoArgs E p fr sm ar fn = a @ ?m @ colorspaceArgs p @ b"
    unfolding videoArgs_def Let_def 1 by (rule append_tail_ex)
  then show ?thesis by blast
qed

text \<open>
  C6. The colorspace arguments of the video job, by the value \<open>get_int\<close> reads from
  \<open>meta.media.colorspace\<close>: 601 with a height of 576, 601 with another height, 170, 240, 470,
  and \<open>bt709\<close> for every other value; a producer without the property reads as 0 and gets
  \<open>bt709\<close>. The arguments of the job hold them right after the filter and the colour range.
\<close>

theorem C6_colorspace_lookup:
  "(get_int p ''meta.media.colorspace'' = 601 \<and> get_int p ''meta.media.height'' = 576
      \<longrightarrow> colorspaceArgs p = triplet ''bt470bg'' ''smpte170m'' ''bt470bg'')
   \<and> (get_int p ''meta.media.colorspace'' = 601 \<and> get_int p ''meta.media.height'' \<noteq> 576
      \<longrightarrow> colorspaceArgs p = triplet ''smpte170m'' ''smpte170m'' ''smpte170m'')
   \<and> (get_int p ''meta.media.colorspace'' = 170
      \<longrightarrow> colorspaceArgs p = triplet ''smpte170m'' ''smpte170m'' ''smpte170m'')
   \<and> (get_int p ''meta.media.colorspace'' = 240
      \<longrightarrow> colorspaceArgs p = triplet ''smpte240m'' ''smpte240m'' ''smpte240m'')
   \<and> (get_int p ''meta.media.colorspace'' = 470
      \<longrightarrow> colorspaceArgs p = triplet ''bt470bg'' ''bt470bg'' ''bt470bg'')
   \<and> (get_int p ''meta.media.colorspace'' \<notin> {601, 170, 240, 470}
      \<longrightarrow> colorspaceArgs p = triplet ''bt709'' ''bt709'' ''bt709'')
   \<and> (get p ''meta.media.colorspace'' = None
      \<longrightarrow> get_int p ''meta.media.colorspace'' = 0
          \<and> colorspaceArgs p = triplet ''bt709'' ''bt709'' ''bt709'')
   \<and> (\<exists>a b. videoArgs E p fr sm ar fn
         = a @ [''-vf'', videoFilter E fr sm, ''-color_range'', if fr then ''jpeg'' else ''mpeg'']
             @ colorspaceArgs p @ b)"
  using videoArgs_colorspace [of E p fr sm ar fn]
  by (auto simp: colorspaceArgs_def triplet_def Let_def get_int_def get_def)

theorem C6_colorspace_lookup_witness:
  "get_int \<lparr>is_valid = True,
        props = [''meta.media.colorspace'' \<mapsto> ''601'', ''meta.media.height'' \<mapsto> ''576'']\<rparr> ''meta.media.colorspace'' = 601
   \<and> get_int \<lparr>is_valid = True,
        props = [''meta.media.colorspace'' \<mapsto> ''601'', ''meta.media.height'' \<mapsto> ''576'']\<rparr> ''meta.media.height'' = 576
   \<and> colorspaceArgs \<lparr>is_valid = True,
        props = [''meta.media.colorspace'' \<mapsto> ''601'', ''meta.media.height'' \<mapsto> ''576'']\<rparr>
       = [''-color_primaries'', ''bt470bg'', ''-color_trc'', ''smpte170m'', ''-colorspace'', ''bt470bg'']
   \<and> get \<lparr>is_valid = True, props = Map.empty\<rparr> ''meta.media.colorspace'' = None
   \<and> colorspaceArgs \<lparr>is_valid = True, props = Map.empty\<rparr>
       = [''-color_primaries'', ''bt709'', ''-color_trc'', ''bt709'', ''-colorspace'', ''bt709'']"
proof -
  have c: "get_int \<lparr>is_valid = True,
        props = [''meta.media.colorspace'' \<mapsto> ''601'', ''meta.media.height'' \<mapsto> ''576'']\<rparr> ''meta.media.colorspace'' = 601"
    by (simp add: get_int_def atoi_def digitValue_def)
  have h: "get_int \<lparr>is_valid = True,
        props = [''meta.media.colorspace'' \<mapsto> ''601'', ''meta.media.height'' \<mapsto> ''576'']\<rparr> ''meta.media.height'' = 576"
    by (simp add: get_int_def atoi_def digitValue_def)
  have n: "get \<lparr>is_valid = True, props = Map.empty\<rparr> ''meta.media.colorspace'' = None"
    by (simp add: get_def)
  show ?thesis
    using c h n
      C6_colorspace_lookup [of "\<lparr>is_valid = True,
        props = [''meta.media.colorspace'' \<mapsto> ''601'', ''meta.media.height'' \<mapsto> ''576'']\<rparr>"]
      C6_colorspace_lookup [of "\<lparr>is_valid = True, props = Map.empty\<rparr>"]
    by (simp add: triplet_def)
qed

subsection \<open>The characters of the filter expression\<close>

lemma hasPair_append:
  "hasPair a b (xs @ ys) =
     (hasPair a b xs \<or> hasPair a b ys \<or> (xs \<noteq> [] \<and> ys \<noteq> [] \<and> last xs = a \<and> hd ys = b))"
proof (induction a b xs rule: hasPair.induct)
  case (1 a b x y zs)
  then show ?case by auto
qed (cases ys; auto)+

lemma hasPair_notin: "a \<notin> set xs \<Longrightarrow> \<not> hasPair a b xs"
  by (induction a b xs rule: hasPair.induct) auto

lemma hasPair_mid:
  assumes "a \<notin> set m" and "b \<notin> set m" and "m \<noteq> []"
  shows "hasPair a b (xs @ m @ ys) = (hasPair a b xs \<or> hasPair a b ys)"
proof -
  have "last m \<noteq> a" "hd m \<noteq> b"
    using assms by (metis last_in_set, metis hd_in_set)
  then show ?thesis
    using assms by (auto simp: hasPair_append hasPair_notin)
qed

lemma sublist_hasPair: "sublist (a # b # xs) ys \<Longrightarrow> hasPair a b ys"
proof -
  assume "sublist (a # b # xs) ys"
  then obtain ps ss where "ys = ps @ (a # b # xs) @ ss" by (auto simp: sublist_def)
  then show ?thesis by (simp add: hasPair_append)
qed

lemma digitChar_digit: "digitChar d \<in> set ''0123456789''"
  unfolding digitChar_def by (rule nth_mem) simp

lemma natDigits_chars: "c \<in> set (natDigits n) \<Longrightarrow> c \<in> set ''0123456789''"
proof (induction n rule: natDigits.induct)
  case (1 n)
  show ?case
  proof (cases "n < 10")
    case True
    with 1(2) have "c = digitChar n" by (simp add: natDigits.simps [of n])
    then show ?thesis using digitChar_digit [of n] by simp
  next
    case False
    with 1(2) have "c \<in> set (natDigits (n div 10)) \<or> c = digitChar (n mod 10)"
      by (auto simp: natDigits.simps [of n])
    then show ?thesis
      using 1(1) [OF False] digitChar_digit [of "n mod 10"] by auto
  qed
qed

lemma natDigits_nonempty: "natDigits n \<noteq> []"
  by (simp add: natDigits.simps [of n])

lemma number_chars: "c \<in> set (number i) \<Longrightarrow> c \<in> set ''-0123456789''"
  by (auto simp: number_def dest: natDigits_chars split: if_splits)

lemma number_nonempty: "number i \<noteq> []"
  by (simp add: number_def natDigits_nonempty)

lemma number_letters:
  "CHR ''p'' \<notin> set (number i)" "CHR ''a'' \<notin> set (number i)" "CHR ''y'' \<notin> set (number i)"
  using number_chars [of "CHR ''p''" i] number_chars [of "CHR ''a''" i]
    number_chars [of "CHR ''y''" i]
  by auto

lemma arg_scale: "arg ''scale=width=-2:height=%1'' x = ''scale=width=-2:height='' @ x"
  by (simp add: arg_def escapeAt_def digitValue_def)

lemma deinterlaceFilter_values:
  "deinterlaceFilter Automatic = ''yadif=deint=interlaced,''"
  "deinterlaceFilter Progressive = []"
  "deinterlaceFilter InterlacedTopFieldFirst = ''yadif=parity=tff,''"
  "deinterlaceFilter InterlacedBottomFieldFirst = ''yadif=parity=bff,''"
  by (simp_all add: deinterlaceFilter_def arg_def escapeAt_def digitValue_def)

lemma videoFilter_shape:
  "\<exists>range hw. videoFilter E fr sm
      = deinterlaceFilter sm @ ''scale=width=-2:height='' @ number (resolution E) @ range @ hw
    \<and> range \<in> {'':in_range=full:out_range=full'', '':in_range=mpeg:out_range=mpeg''}
    \<and> hw \<in> {[], '',format=nv12,hwupload''}"
proof -
  define range where
    "range = (if fr then '':in_range=full:out_range=full'' else '':in_range=mpeg:out_range=mpeg'')"
  define hw where
    "hw = (if proxyUseHardware E
              \<and> (''hevc_vaapi'' \<in> set (encodeHardware E) \<or> ''h264_vaapi'' \<in> set (encodeHardware E))
           then '',format=nv12,hwupload'' else [])"
  have "videoFilter E fr sm
      = deinterlaceFilter sm @ ''scale=width=-2:height='' @ number (resolution E) @ range @ hw"
    unfolding range_def hw_def by (simp add: videoFilter_def Let_def arg_scale)
  moreover have "range \<in> {'':in_range=full:out_range=full'', '':in_range=mpeg:out_range=mpeg''}"
    unfolding range_def by simp
  moreover have "hw \<in> {[], '',format=nv12,hwupload''}"
    unfolding hw_def by simp
  ultimately show ?thesis by blast
qed

lemma no_parity_automatic: "\<not> sublist ''parity'' (videoFilter E fr Automatic)"
proof
  assume "sublist ''parity'' (videoFilter E fr Automatic)"
  then have hp: "hasPair CHR ''p'' CHR ''a'' (videoFilter E fr Automatic)"
    by (rule sublist_hasPair)
  obtain range hw where shape: "videoFilter E fr Automatic
      = ''yadif=deint=interlaced,scale=width=-2:height='' @ number (resolution E) @ (range @ hw)"
    and range: "range \<in> {'':in_range=full:out_range=full'', '':in_range=mpeg:out_range=mpeg''}"
    and hw: "hw \<in> {[], '',format=nv12,hwupload''}"
    using videoFilter_shape [of E fr Automatic] by (auto simp: deinterlaceFilter_values)
  have "hasPair CHR ''p'' CHR ''a'' (videoFilter E fr Automatic)
      = (hasPair CHR ''p'' CHR ''a'' ''yadif=deint=interlaced,scale=width=-2:height=''
         \<or> hasPair CHR ''p'' CHR ''a'' (range @ hw))"
    unfolding shape by (rule hasPair_mid) (simp_all add: number_letters number_nonempty)
  moreover have "\<not> hasPair CHR ''p'' CHR ''a'' (range @ hw)"
    using range hw by auto
  ultimately show False using hp by simp
qed

lemma no_yadif_progressive: "\<not> sublist ''yadif'' (videoFilter E fr Progressive)"
proof
  assume "sublist ''yadif'' (videoFilter E fr Progressive)"
  then have "set ''yadif'' \<subseteq> set (videoFilter E fr Progressive)"
    by (rule set_mono_sublist)
  then have y: "CHR ''y'' \<in> set (videoFilter E fr Progressive)" by simp
  obtain range hw where shape: "videoFilter E fr Progressive
      = ''scale=width=-2:height='' @ number (resolution E) @ range @ hw"
    and range: "range \<in> {'':in_range=full:out_range=full'', '':in_range=mpeg:out_range=mpeg''}"
    and hw: "hw \<in> {[], '',format=nv12,hwupload''}"
    using videoFilter_shape [of E fr Progressive] by (auto simp: deinterlaceFilter_values)
  from y show False
    unfolding shape using range hw number_letters(3) [of "resolution E"] by auto
qed

lemma forced_parity:
  "prefix ''yadif=parity=tff,'' (videoFilter E fr InterlacedTopFieldFirst)"
  "prefix ''yadif=parity=bff,'' (videoFilter E fr InterlacedBottomFieldFirst)"
  "prefix ''yadif=deint=interlaced,'' (videoFilter E fr Automatic)"
  using videoFilter_shape [of E fr InterlacedTopFieldFirst]
    videoFilter_shape [of E fr InterlacedBottomFieldFirst]
    videoFilter_shape [of E fr Automatic]
  by (auto simp: deinterlaceFilter_values)

text \<open>
  C7. The filter expression that follows \<open>-vf\<close>, by scan mode. \<open>Automatic\<close>: it starts with
  \<open>yadif=deint=interlaced\<close>, the filter that deinterlaces the frames flagged interlaced, and
  the word \<open>parity\<close> occurs nowhere in it. \<open>InterlacedTopFieldFirst\<close>: it starts with
  \<open>yadif=parity=tff\<close>. \<open>InterlacedBottomFieldFirst\<close>: it starts with \<open>yadif=parity=bff\<close>.
  \<open>Progressive\<close>: \<open>yadif\<close> occurs nowhere in it. This holds for every environment (preview
  scale, hardware settings) and both colour ranges.
\<close>

theorem C7_deinterlace_by_scan_mode:
  "prefix ''yadif=deint=interlaced,'' (videoFilter E fr Automatic)
   \<and> \<not> sublist ''parity'' (videoFilter E fr Automatic)
   \<and> prefix ''yadif=parity=tff,'' (videoFilter E fr InterlacedTopFieldFirst)
   \<and> prefix ''yadif=parity=bff,'' (videoFilter E fr InterlacedBottomFieldFirst)
   \<and> \<not> sublist ''yadif'' (videoFilter E fr Progressive)
   \<and> (\<exists>a b. videoArgs E p fr sm ar fn
         = a @ [''-vf'', videoFilter E fr sm, ''-color_range'', if fr then ''jpeg'' else ''mpeg'']
             @ colorspaceArgs p @ b)"
  using forced_parity [of E fr] no_parity_automatic [of E fr] no_yadif_progressive [of E fr]
    videoArgs_colorspace [of E p fr sm ar fn]
  by blast

section \<open>Claims about the derivation jobs and the cache\<close>

lemma dir_effects: "e \<in> set (snd (dir E)) \<Longrightarrow> \<exists>d s. e = Mkdir d s"
  by (auto simp: dir_def Let_def split: if_splits)

text \<open>
  C4. The operations \<open>generateVideoProxy\<close> and \<open>generateImageProxy\<close> issue, in order: what
  \<open>dir()\<close> does (at most a \<open>mkdir\<close>, never a submission), then \<open>open\<close>, \<open>resize(0)\<close> and
  \<open>close\<close> on the pending path, then \<open>JOBS.add\<close>, last and once, with a job whose output is
  that same path. The pending path is the hash with the pending suffix of the media kind,
  in the directory \<open>dir()\<close> returns.
\<close>

theorem C4_marker_before_submission:
  "(\<exists>j. generateVideoProxy E p fr sm ar rp
         = snd (dir E)
           @ [FileOpenWriteOnly (filePath (fst (dir E)) (getHash E p @ ''.pending.mp4'')),
              FileResize (filePath (fst (dir E)) (getHash E p @ ''.pending.mp4'')) 0,
              FileClose (filePath (fst (dir E)) (getHash E p @ ''.pending.mp4'')),
              JobsAdd j]
       \<and> (\<exists>args. theJob j
             = FfmpegJob (filePath (fst (dir E)) (getHash E p @ ''.pending.mp4'')) args False))
   \<and> (\<exists>j. generateImageProxy E p rp
         = snd (dir E)
           @ [FileOpenWriteOnly (filePath (fst (dir E)) (getHash E p @ ''.pending.jpg'')),
              FileResize (filePath (fst (dir E)) (getHash E p @ ''.pending.jpg'')) 0,
              FileClose (filePath (fst (dir E)) (getHash E p @ ''.pending.jpg'')),
              JobsAdd j]
       \<and> (\<exists>args. theJob j
             = MeltJob (filePath (fst (dir E)) (getHash E p @ ''.pending.jpg'')) args 1 1))
   \<and> (\<forall>j. JobsAdd j \<notin> set (snd (dir E)))"
proof -
  have "\<forall>j. JobsAdd j \<notin> set (snd (dir E))"
    using dir_effects [of _ E] by blast
  then show ?thesis
    by (simp add: generateVideoProxy_def generateImageProxy_def touch_def Let_def
        kProxyPendingVideoExtension_def kProxyPendingImageExtension_def)
qed

lemmas example_defs = exampleEnvironment_def emptyCacheEnvironment_def exampleClip_def
  sampleNames_def generateIfNotExists_def
  fileExists_def filePending_def proxyFileName_def existsInEither_def cd_def dirExistsEntry_def
  filePath_def QDir_def isValidImage_def get_def get_int_def set_int_def set_string_def
  fromChars_def startsWith_def kProxyVideoExtension_def kProxyImageExtension_def
  kProxyPendingVideoExtension_def kProxyPendingImageExtension_def atoi_def digitValue_def
  Let_def number_def natDigits.simps digitChar_def resolution_def kFallbackProxyResolution_def

text \<open>
  C8. With the ready proxy in the project-scoped folder, \<open>/p/proxies/H.mp4\<close>, and none in
  the global folder \<open>/g\<close>, \<open>fileExists\<close> finds the proxy, and \<open>generateIfNotExists\<close> tags the
  clip, stashes its resource and returns true, as the claim says; but it sets \<open>resource\<close> to
  \<open>/g/H.mp4\<close>, a file that does not exist. Line 433 asks \<open>projectDir.exists(fileName)\<close> on the
  project folder itself: the \<open>cd("proxies")\<close> that \<open>fileExists\<close> does at line 396 is missing.
\<close>

theorem C8_project_scoped_path:
  "entryExists exampleEnvironment ''/p/proxies/H.mp4''
   \<and> \<not> entryExists exampleEnvironment ''/g/H.mp4''
   \<and> fileExists exampleEnvironment (exampleClip ''1920'' ''1080'')
   \<and> fst (generateIfNotExists exampleEnvironment (exampleClip ''1920'' ''1080'') False)
   \<and> get (fst (snd (generateIfNotExists exampleEnvironment (exampleClip ''1920'' ''1080'') False)))
        ''resource'' = Some ''/g/H.mp4''
   \<and> get (fst (snd (generateIfNotExists exampleEnvironment (exampleClip ''1920'' ''1080'') False)))
        ''shotcut:originalResource'' = Some ''/media/clip.mov''
   \<and> get_int (fst (snd (generateIfNotExists exampleEnvironment (exampleClip ''1920'' ''1080'') False)))
        ''shotcut:proxy'' = 1"
  by (simp add: example_defs)

lemmas single_defs = qRound_def fmul_def fadd_def fsub_def ofInt_def toInt_def roundSingle_def
  kProxyResolutionRatio_def bitLength.simps Let_def

lemma threshold_values:
  "qRound (fmul kProxyResolutionRatio (ofInt 360)) = 468"
  "qRound (fmul kProxyResolutionRatio (ofInt 540)) = 702"
  "qRound (fmul kProxyResolutionRatio (ofInt 720)) = 936"
  "qRound (fmul kProxyResolutionRatio (ofInt 1080)) = 1404"
  "qRound (fmul kProxyResolutionRatio (ofInt 45)) = 58"
  by (simp_all add: single_defs)

text \<open>
  C10, as stated, has the threshold at \<open>round(1.3 * resolution)\<close>. The code multiplies in
  single precision, where \<open>1.3f\<close> is a little less than 1.3: at a resolution of 45 the product
  is below 58.5 and the threshold is 58, not 59. A clip of 59 by 59, eligible and without
  proxy files, gets a job, although it does not exceed \<open>round(1.3 * 45) = 59\<close>.
\<close>

theorem C10_single_precision_counterexample:
  "resolution smallScaleEnvironment = 45
   \<and> roundedRatio 45 = 59
   \<and> threshold smallScaleEnvironment = 58
   \<and> get_int (exampleClip ''59'' ''59'') ''meta.media.width'' = 59
   \<and> get_int (exampleClip ''59'' ''59'') ''meta.media.height'' = 59
   \<and> \<not> fileExists smallScaleEnvironment (exampleClip ''59'' ''59'')
   \<and> \<not> filePending smallScaleEnvironment (exampleClip ''59'' ''59'')
   \<and> (\<exists>j. JobsAdd j
          \<in> set (snd (snd (generateIfNotExists smallScaleEnvironment
                              (exampleClip ''59'' ''59'') False))))"
proof -
  have r: "resolution smallScaleEnvironment = 45"
    by (simp add: smallScaleEnvironment_def emptyCacheEnvironment_def exampleEnvironment_def
        resolution_def)
  have t: "threshold smallScaleEnvironment = 58"
    by (simp add: threshold_def r threshold_values)
  have c: "get_int (exampleClip ''59'' ''59'') ''meta.media.width'' = 59"
    "get_int (exampleClip ''59'' ''59'') ''meta.media.height'' = 59"
    by (simp_all add: exampleClip_def get_int_def atoi_def digitValue_def)
  have f: "\<not> fileExists smallScaleEnvironment (exampleClip ''59'' ''59'')"
    "\<not> filePending smallScaleEnvironment (exampleClip ''59'' ''59'')"
    by (simp_all add: smallScaleEnvironment_def emptyCacheEnvironment_def exampleEnvironment_def
        exampleClip_def get_def fromChars_def startsWith_def fileExists_def filePending_def
        proxyFileName_def existsInEither_def dirExistsEntry_def Let_def)
  have e: "proxyEnabled smallScaleEnvironment" "get_frame smallScaleEnvironment = (\<lambda>p. p)"
    "is_valid (exampleClip ''59'' ''59'')"
    "get_int (exampleClip ''59'' ''59'')
       (kDisableProxyProperty (propertyNamesOf smallScaleEnvironment)) = 0"
    "get_int (exampleClip ''59'' ''59'')
       (kIsProxyProperty (propertyNamesOf smallScaleEnvironment)) = 0"
    "startsWith (fromChars (get (exampleClip ''59'' ''59'') ''mlt_service'')) ''avformat''"
    by (simp_all add: smallScaleEnvironment_def emptyCacheEnvironment_def exampleEnvironment_def
        exampleClip_def sampleNames_def get_int_def get_def fromChars_def startsWith_def)
  have j: "\<exists>j. JobsAdd j \<in> set (generateVideoProxy E q fr sm ar rp)" for E q fr sm ar rp
    by (auto simp: generateVideoProxy_def touch_def Let_def)
  have "\<exists>j. JobsAdd j
      \<in> set (snd (snd (generateIfNotExists smallScaleEnvironment
                          (exampleClip ''59'' ''59'') False)))"
    using r c f e j t [unfolded threshold_def r]
    by (simp add: generateIfNotExists_def Let_def)
  then show ?thesis
    using r t c f by (simp add: roundedRatio_def)
qed

text \<open>
  C10, amended. For a clip that is eligible (proxies enabled, a valid producer, neither
  disabled nor a proxy, an \<open>avformat\<close> service or a valid image) and has neither a ready nor
  a pending proxy file, \<open>generateIfNotExists\<close> returns false; it submits a job exactly when
  both the width and the height that \<open>get_frame\<close> leaves in \<open>meta.media\<close> exceed the threshold,
  and it opens a pending file exactly then; otherwise its only effect is \<open>get_frame\<close>. The
  threshold is \<open>qRound(kProxyResolutionRatio * resolution())\<close> in single precision; at the
  resolutions 360, 540, 720 and 1080 it is \<open>round(1.3 * resolution)\<close>.
\<close>

theorem C10_threshold:
  assumes "proxyEnabled E" and "is_valid p"
    and "get_int p (kDisableProxyProperty (propertyNamesOf E)) = 0"
    and "get_int p (kIsProxyProperty (propertyNamesOf E)) = 0"
    and "startsWith (fromChars (get p ''mlt_service'')) ''avformat'' \<or> isValidImage E p"
    and "\<not> fileExists E p" and "\<not> filePending E p"
  shows "\<not> fst (generateIfNotExists E p rp)
       \<and> ((\<exists>j. JobsAdd j \<in> set (snd (snd (generateIfNotExists E p rp))))
            = (get_int (get_frame E p) ''meta.media.width'' > threshold E
               \<and> get_int (get_frame E p) ''meta.media.height'' > threshold E))
       \<and> ((\<exists>f. FileOpenWriteOnly f \<in> set (snd (snd (generateIfNotExists E p rp))))
            = (get_int (get_frame E p) ''meta.media.width'' > threshold E
               \<and> get_int (get_frame E p) ''meta.media.height'' > threshold E))
       \<and> (\<not> (get_int (get_frame E p) ''meta.media.width'' > threshold E
               \<and> get_int (get_frame E p) ''meta.media.height'' > threshold E)
            \<longrightarrow> snd (snd (generateIfNotExists E p rp)) = [GetFrame])
       \<and> threshold E = qRound (fmul kProxyResolutionRatio (ofInt (resolution E)))
       \<and> kProxyResolutionRatio = (10905190, - 23)
       \<and> (resolution E \<in> {360, 540, 720, 1080} \<longrightarrow> threshold E = roundedRatio (resolution E))"
proof -
  have v: "\<exists>j. JobsAdd j \<in> set (generateVideoProxy E q fr sm ar rp)"
    "\<exists>f. FileOpenWriteOnly f \<in> set (generateVideoProxy E q fr sm ar rp)" for q fr sm ar
    by (auto simp: generateVideoProxy_def touch_def Let_def)
  have i: "\<exists>j. JobsAdd j \<in> set (generateImageProxy E q rp)"
    "\<exists>f. FileOpenWriteOnly f \<in> set (generateImageProxy E q rp)" for q
    by (auto simp: generateImageProxy_def touch_def Let_def)
  have 1: "\<not> fst (generateIfNotExists E p rp)
       \<and> ((\<exists>j. JobsAdd j \<in> set (snd (snd (generateIfNotExists E p rp))))
            = (get_int (get_frame E p) ''meta.media.width'' > threshold E
               \<and> get_int (get_frame E p) ''meta.media.height'' > threshold E))
       \<and> ((\<exists>f. FileOpenWriteOnly f \<in> set (snd (snd (generateIfNotExists E p rp))))
            = (get_int (get_frame E p) ''meta.media.width'' > threshold E
               \<and> get_int (get_frame E p) ''meta.media.height'' > threshold E))
       \<and> (\<not> (get_int (get_frame E p) ''meta.media.width'' > threshold E
               \<and> get_int (get_frame E p) ''meta.media.height'' > threshold E)
            \<longrightarrow> snd (snd (generateIfNotExists E p rp)) = [GetFrame])"
    using assms v i by (auto simp: generateIfNotExists_def threshold_def Let_def)
  have 2: "resolution E \<in> {360, 540, 720, 1080} \<longrightarrow> threshold E = roundedRatio (resolution E)"
    by (auto simp: threshold_def threshold_values roundedRatio_def)
  show ?thesis
    using 1 2 by (simp add: threshold_def kProxyResolutionRatio_def)
qed

theorem C10_threshold_witness:
  "proxyEnabled emptyCacheEnvironment
   \<and> is_valid (exampleClip ''1920'' ''1080'')
   \<and> get_int (exampleClip ''1920'' ''1080'')
        (kDisableProxyProperty (propertyNamesOf emptyCacheEnvironment)) = 0
   \<and> get_int (exampleClip ''1920'' ''1080'')
        (kIsProxyProperty (propertyNamesOf emptyCacheEnvironment)) = 0
   \<and> startsWith (fromChars (get (exampleClip ''1920'' ''1080'') ''mlt_service'')) ''avformat''
   \<and> \<not> fileExists emptyCacheEnvironment (exampleClip ''1920'' ''1080'')
   \<and> \<not> filePending emptyCacheEnvironment (exampleClip ''1920'' ''1080'')
   \<and> resolution emptyCacheEnvironment = 540
   \<and> threshold emptyCacheEnvironment = 702
   \<and> \<not> fst (generateIfNotExists emptyCacheEnvironment (exampleClip ''1920'' ''1080'') False)
   \<and> (\<exists>j. JobsAdd j
          \<in> set (snd (snd (generateIfNotExists emptyCacheEnvironment
                              (exampleClip ''1920'' ''1080'') False))))
   \<and> \<not> fst (generateIfNotExists emptyCacheEnvironment (exampleClip ''702'' ''1080'') False)
   \<and> snd (snd (generateIfNotExists emptyCacheEnvironment (exampleClip ''702'' ''1080'') False))
       = [GetFrame]"
proof -
  have big: "get_int (exampleClip ''1920'' ''1080'') ''meta.media.width'' = 1920"
    "get_int (exampleClip ''1920'' ''1080'') ''meta.media.height'' = 1080"
    "get_int (exampleClip ''702'' ''1080'') ''meta.media.width'' = 702"
    by (simp_all add: exampleClip_def get_int_def atoi_def digitValue_def)
  have res: "resolution emptyCacheEnvironment = 540"
    by (simp add: emptyCacheEnvironment_def exampleEnvironment_def resolution_def
        kFallbackProxyResolution_def)
  have env: "proxyEnabled emptyCacheEnvironment"
    "get_frame emptyCacheEnvironment = (\<lambda>p. p)"
    "threshold emptyCacheEnvironment = 702"
    by (simp_all add: threshold_def res threshold_values)
       (simp_all add: emptyCacheEnvironment_def exampleEnvironment_def)
  have clip: "is_valid (exampleClip w h)"
    "get_int (exampleClip w h) (kDisableProxyProperty (propertyNamesOf emptyCacheEnvironment)) = 0"
    "get_int (exampleClip w h) (kIsProxyProperty (propertyNamesOf emptyCacheEnvironment)) = 0"
    "startsWith (fromChars (get (exampleClip w h) ''mlt_service'')) ''avformat''"
    "\<not> fileExists emptyCacheEnvironment (exampleClip w h)"
    "\<not> filePending emptyCacheEnvironment (exampleClip w h)" for w h
    by (simp_all add: emptyCacheEnvironment_def exampleEnvironment_def exampleClip_def
        sampleNames_def get_int_def get_def fromChars_def startsWith_def fileExists_def
        filePending_def proxyFileName_def existsInEither_def dirExistsEntry_def Let_def)
  show ?thesis
    using C10_threshold [of emptyCacheEnvironment "exampleClip ''1920'' ''1080''" False]
      C10_threshold [of emptyCacheEnvironment "exampleClip ''702'' ''1080''" False]
      big res env clip
    by simp
qed

section \<open>Claims about \<open>filterXML\<close>\<close>

lemma hasError_filterLoop:
  "hasError (filterLoop K root st ts) = (hasError st \<or> parseError ts)"
proof (induction K root st ts rule: filterLoop.induct)
qed (auto simp: emit_def processProperties_def Let_def)

lemma readElementText_consumed:
  "\<not> snd (snd (readElementText ts)) \<Longrightarrow>
   (EndDocument \<in> set (takeWhile (\<lambda>t. t \<noteq> Invalid) ts))
     = (EndDocument \<in> set (takeWhile (\<lambda>t. t \<noteq> Invalid) (fst (snd (readElementText ts)))))"
  by (induction ts rule: readElementText.induct) (auto simp: Let_def)

lemma unfinished_parseError:
  "EndDocument \<notin> set (takeWhile (\<lambda>t. t \<noteq> Invalid) ts) \<Longrightarrow> parseError ts"
proof (induction ts rule: parseError.induct)
  case 1
  show ?case by simp
next
  case (2 t ts)
  show ?case
  proof (cases t)
    case (StartElement ns element attrs)
    show ?thesis
    proof (cases "element = ''property'' \<and> \<not> snd (snd (readElementText ts))")
      case True
      with "2.prems" StartElement
      have "EndDocument \<notin> set (takeWhile (\<lambda>t. t \<noteq> Invalid) (fst (snd (readElementText ts))))"
        using readElementText_consumed [of ts] by simp
      with "2.IH" StartElement True
      have "parseError (fst (snd (readElementText ts)))" by auto
      with True StartElement show ?thesis by (simp add: Let_def)
    next
      case False
      with "2.IH" "2.prems" StartElement show ?thesis
        by (auto simp: Let_def)
    qed
  qed (use 2 in auto)
qed

text \<open>
  C9. \<open>filterXML\<close> returns true exactly when the input file and the temporary file open and
  the reader ends without error. When it returns true the caller's \<open>fileName\<close> is the name
  of the temporary file, which is no longer set to be removed; when it returns false
  \<open>fileName\<close> is unchanged and the temporary file is still set to be removed when it goes out
  of scope. The reader ends in error, and \<open>filterXML\<close> returns false, whenever the tokens
  do not reach the end of the document before an \<open>Invalid\<close> token or before they run out.
\<close>

theorem C9_outcome:
  "returned (filterXML K file tempFile fileName root)
     = (opens file \<and> tempOpens tempFile \<and> \<not> parseError (tokens file))
   \<and> (returned (filterXML K file tempFile fileName root) \<longrightarrow>
        fileNameAfter (filterXML K file tempFile fileName root) = tempFileName tempFile
        \<and> \<not> autoRemove (filterXML K file tempFile fileName root))
   \<and> (\<not> returned (filterXML K file tempFile fileName root) \<longrightarrow>
        fileNameAfter (filterXML K file tempFile fileName root) = fileName
        \<and> autoRemove (filterXML K file tempFile fileName root))
   \<and> (EndDocument \<notin> set (takeWhile (\<lambda>t. t \<noteq> Invalid) (tokens file)) \<longrightarrow>
        \<not> returned (filterXML K file tempFile fileName root))"
  using unfinished_parseError [of "tokens file"]
  by (auto simp: filterXML_def Let_def hasError_filterLoop)

theorem C9_outcome_witness:
  "returned (filterXML sampleNames goodFile exampleTemporary ''/p/a.mlt'' ''/p/'')
   \<and> fileNameAfter (filterXML sampleNames goodFile exampleTemporary ''/p/a.mlt'' ''/p/'')
       = ''/p/shotcut-AbCdEf.mlt''
   \<and> \<not> autoRemove (filterXML sampleNames goodFile exampleTemporary ''/p/a.mlt'' ''/p/'')
   \<and> EndDocument \<notin> set (takeWhile (\<lambda>t. t \<noteq> Invalid) (tokens badFile))
   \<and> \<not> returned (filterXML sampleNames badFile exampleTemporary ''/p/a.mlt'' ''/p/'')
   \<and> fileNameAfter (filterXML sampleNames badFile exampleTemporary ''/p/a.mlt'' ''/p/'')
       = ''/p/a.mlt''
   \<and> autoRemove (filterXML sampleNames badFile exampleTemporary ''/p/a.mlt'' ''/p/'')"
proof -
  have good: "opens goodFile \<and> tempOpens exampleTemporary \<and> \<not> parseError (tokens goodFile)"
    by (simp add: goodFile_def exampleTemporary_def)
  have bad: "EndDocument \<notin> set (takeWhile (\<lambda>t. t \<noteq> Invalid) (tokens badFile))"
    by (simp add: badFile_def)
  have name: "tempFileName exampleTemporary = ''/p/shotcut-AbCdEf.mlt''"
    by (simp add: exampleTemporary_def)
  show ?thesis
    using C9_outcome [of sampleNames goodFile exampleTemporary "''/p/a.mlt''" "''/p/''"]
      C9_outcome [of sampleNames badFile exampleTemporary "''/p/a.mlt''" "''/p/''"]
      good bad name
    by auto
qed

end
